theory Spec2Isabelle
  imports Main
begin

section \<open>Python 2 values used by \<^verbatim>\<open>scraper_connection.py\<close>\<close>

text \<open>
  The module runs under Python 2 with \<^verbatim>\<open>unicode_literals\<close>: every literal of the
  source is a \<^verbatim>\<open>unicode\<close> object, \<^verbatim>\<open>x.encode('utf-8')\<close> yields a byte
  \<^verbatim>\<open>str\<close>, and mixing the two kinds decodes the byte string with the ASCII codec.
  A \<^verbatim>\<open>unicode\<close> object is held as its UTF-8 byte sequence, so encoding to
  UTF-8 keeps the bytes and the ASCII codec accepts exactly the sequences without a
  byte above 127.
\<close>

datatype pystring = Str string | Unicode string

fun payload :: "pystring \<Rightarrow> string" where
  "payload (Str b) = b"
| "payload (Unicode u) = u"

text \<open>
  An exception is its class name and the text that \<^verbatim>\<open>'{}'.format(e)\<close> gives for it.
  The exceptions that the operations below raise all format to ASCII text; an
  exception of the segmenter is taken to format as well.
\<close>

datatype error = Error (kind: string) (message: string)

definition bind_err :: "error + 'a \<Rightarrow> ('a \<Rightarrow> error + 'b) \<Rightarrow> error + 'b" where
  "bind_err m f = (case m of Inl e \<Rightarrow> Inl e | Inr x \<Rightarrow> f x)"

abbreviation TAB :: char where "TAB \<equiv> CHR 0x09"
abbreviation NL :: char where "NL \<equiv> CHR 0x0A"
abbreviation QUOTE :: char where "QUOTE \<equiv> CHR 0x27"

text \<open>\<^verbatim>\<open>'{}'.format(n)\<close> for a non-negative integer, and \<^verbatim>\<open>'{:02d}'.format(n)\<close>.\<close>

definition digit_char :: "nat \<Rightarrow> char" where
  "digit_char n = ''0123456789abcdef'' ! (n mod 16)"

fun decimal :: "nat \<Rightarrow> string" where
  "decimal n = (if n < 10 then [digit_char n] else decimal (n div 10) @ [digit_char (n mod 10)])"

declare decimal.simps [simp del]

definition pad2 :: "nat \<Rightarrow> string" where
  "pad2 n = (if n < 10 then CHR ''0'' # decimal n else decimal n)"

text \<open>
  The implicit conversion of a byte string to \<^verbatim>\<open>unicode\<close> (the ASCII codec):
  the first byte above 127 raises \<^verbatim>\<open>UnicodeDecodeError\<close>.
\<close>

fun find_non_ascii :: "nat \<Rightarrow> string \<Rightarrow> (nat \<times> char) option" where
  "find_non_ascii i [] = None"
| "find_non_ascii i (c # cs) = (if digit7 c then Some (i, c) else find_non_ascii (Suc i) cs)"

definition decode_error :: "nat \<Rightarrow> char \<Rightarrow> error" where
  "decode_error i c = Error ''UnicodeDecodeError''
     (QUOTE # ''ascii'' @ QUOTE # '' codec can't decode byte 0x''
      @ [digit_char (of_char c div 16), digit_char (of_char c mod 16)]
      @ '' in position '' @ decimal i @ '': ordinal not in range(128)'')"

definition ascii_decode :: "string \<Rightarrow> error + string" where
  "ascii_decode b = (case find_non_ascii 0 b of
       None \<Rightarrow> Inr b
     | Some (i, c) \<Rightarrow> Inl (decode_error i c))"

definition to_unicode :: "pystring \<Rightarrow> error + string" where
  "to_unicode t = (case t of Unicode u \<Rightarrow> Inr u | Str b \<Rightarrow> ascii_decode b)"

text \<open>
  \<^verbatim>\<open>x.encode('utf-8')\<close>: a \<^verbatim>\<open>unicode\<close> object is encoded; a byte string is
  first decoded with the ASCII codec, which raises on a byte above 127.
\<close>

definition encode_utf8 :: "pystring \<Rightarrow> error + pystring" where
  "encode_utf8 t = (case t of
       Unicode u \<Rightarrow> Inr (Str u)
     | Str b \<Rightarrow> bind_err (ascii_decode b) (\<lambda>u. Inr (Str u)))"

text \<open>\<^verbatim>\<open>a == b\<close> on strings: a byte string that is not ASCII equals no unicode object.\<close>

fun py_eq :: "pystring \<Rightarrow> pystring \<Rightarrow> bool" where
  "py_eq (Str a) (Str b) = (a = b)"
| "py_eq (Unicode a) (Unicode b) = (a = b)"
| "py_eq (Str a) (Unicode b) = (find_non_ascii 0 a = None \<and> a = b)"
| "py_eq (Unicode a) (Str b) = (find_non_ascii 0 b = None \<and> a = b)"

text \<open>\<^verbatim>\<open>d[k]\<close> on a document: a missing key raises \<^verbatim>\<open>KeyError\<close>.\<close>

definition getitem :: "string \<Rightarrow> 'a option \<Rightarrow> error + 'a" where
  "getitem k v = (case v of
       None \<Rightarrow> Inl (Error ''KeyError'' (CHR ''u'' # QUOTE # k @ [QUOTE]))
     | Some x \<Rightarrow> Inr x)"

subsection \<open>\<^verbatim>\<open>str.replace\<close>\<close>

fun startswith :: "string \<Rightarrow> string \<Rightarrow> bool" where
  "startswith s [] = True"
| "startswith [] (p # ps) = False"
| "startswith (c # cs) (p # ps) = (c = p \<and> startswith cs ps)"

text \<open>
  \<^verbatim>\<open>s.replace(old, new)\<close> scans from the left and replaces each occurrence it
  meets, continuing after the replaced text; an empty \<^verbatim>\<open>old\<close> matches before
  every character and at the end.
\<close>

function replace_from :: "string \<Rightarrow> string \<Rightarrow> string \<Rightarrow> string" where
  "replace_from old new s =
     (if old = [] \<or> s = [] then s
      else if startswith s old then new @ replace_from old new (drop (length old) s)
      else hd s # replace_from old new (tl s))"
  by pat_completeness auto
termination
  by (relation "measure (\<lambda>(old, new, s). length s)") auto

declare replace_from.simps [simp del]

definition py_replace :: "string \<Rightarrow> string \<Rightarrow> string \<Rightarrow> string" where
  "py_replace s old new =
     (if old = [] then new @ concat (map (\<lambda>c. c # new) s) else replace_from old new s)"

text \<open>
  \<^verbatim>\<open>b.replace(old, new)\<close> on a byte string with unicode arguments: the byte string is
  decoded with the ASCII codec and the result is a unicode object.
\<close>

definition str_replace :: "pystring \<Rightarrow> string \<Rightarrow> string \<Rightarrow> error + pystring" where
  "str_replace t old new =
     bind_err (to_unicode t) (\<lambda>u. Inr (Unicode (py_replace u old new)))"

text \<open>\<^verbatim>\<open>sep.join(xs)\<close> with a unicode separator: every byte string item is decoded.\<close>

fun join_strings :: "string \<Rightarrow> string list \<Rightarrow> string" where
  "join_strings sep [] = []"
| "join_strings sep [x] = x"
| "join_strings sep (x # y # ys) = x @ sep @ join_strings sep (y # ys)"

fun map_err :: "('a \<Rightarrow> error + 'b) \<Rightarrow> 'a list \<Rightarrow> error + 'b list" where
  "map_err f [] = Inr []"
| "map_err f (x # xs) =
     bind_err (f x) (\<lambda>y. bind_err (map_err f xs) (\<lambda>ys. Inr (y # ys)))"

definition unicode_join :: "string \<Rightarrow> pystring list \<Rightarrow> error + string" where
  "unicode_join sep xs = bind_err (map_err to_unicode xs) (\<lambda>us. Inr (join_strings sep us))"

section \<open>Documents and the renderer of \<^verbatim>\<open>query_all\<close>\<close>

text \<open>
  A stored document is a dictionary; each key the module reads may be absent. The
  timestamps are integers (microseconds since 0001-01-01T00:00:00).
\<close>

type_synonym datetime = int

record post =
  date_added :: "datetime option"
  published_date :: "datetime option"
  stanford :: "int option"
  source :: "pystring option"
  content :: "pystring option"
  url :: "pystring option"
  date :: "pystring option"

definition boilerplate :: string where
  "boilerplate = ''Caution iconAttention The browser or device you are using is out of date.  It has known security flaws and a limited feature set.  You will not see all the features of some websites.  Please update your browser.''"

text \<open>
  Lines 67 to 71: the content handed to the sentence segmenter. The segmenter
  (\<^verbatim>\<open>utilities.sentence_segmenter\<close>) is a parameter \<open>seg\<close> of the model: it maps
  a text to its sentences or raises.
\<close>

definition cleaned_content :: "post \<Rightarrow> error + pystring" where
  "cleaned_content p =
     bind_err (getitem ''content'' (content p)) (\<lambda>c.
     bind_err (encode_utf8 c) (\<lambda>encoded.
     bind_err (getitem ''source'' (source p)) (\<lambda>src.
       if py_eq src (Unicode ''aljazeera'')
       then str_replace encoded boilerplate []
       else Inr encoded)))"

text \<open>Lines 72 to 74: the header and the formatted block of one document.\<close>

definition make_header :: "(pystring \<Rightarrow> error + pystring list) \<Rightarrow> pystring \<Rightarrow> error + string" where
  "make_header seg cleaned =
     bind_err (seg cleaned) (\<lambda>sents. unicode_join ''  '' (take 4 sents))"

definition format_entry :: "nat \<Rightarrow> post \<Rightarrow> string \<Rightarrow> error + string" where
  "format_entry num p header =
     bind_err (getitem ''date'' (date p)) (\<lambda>d.
     bind_err (getitem ''url'' (url p)) (\<lambda>u.
     bind_err (to_unicode d) (\<lambda>ds.
     bind_err (to_unicode u) (\<lambda>us.
       Inr (decimal num @ TAB # ds @ TAB # us @ NL # header @ [NL])))))"

definition render_post :: "(pystring \<Rightarrow> error + pystring list) \<Rightarrow> nat \<Rightarrow> post \<Rightarrow> error + string" where
  "render_post seg num p =
     bind_err (cleaned_content p) (\<lambda>cleaned.
     bind_err (make_header seg cleaned) (\<lambda>header.
       format_entry num p header))"

text \<open>
  Lines 64 to 78: the loop over \<^verbatim>\<open>enumerate(posts)\<close>. Whatever the body raises is
  caught and printed with the index; the index advances either way.
\<close>

datatype event = Print string | LogInfo string | WriteFile string string

definition error_line :: "nat \<Rightarrow> error \<Rightarrow> string" where
  "error_line num e = ''Error on entry '' @ decimal num @ '': '' @ message e @ ''.''"

fun render_loop ::
  "(pystring \<Rightarrow> error + pystring list) \<Rightarrow> nat \<Rightarrow> post list \<Rightarrow> string list \<times> event list
     \<Rightarrow> string list \<times> event list" where
  "render_loop seg num [] (output, evs) = (output, evs)"
| "render_loop seg num (p # ps) (output, evs) =
     (case render_post seg num p of
        Inr s \<Rightarrow> render_loop seg (Suc num) ps (output @ [s], evs)
      | Inl e \<Rightarrow> render_loop seg (Suc num) ps (output, evs @ [Print (error_line num e)]))"

section \<open>The two backing stores\<close>

text \<open>
  A MongoDB collection is the list of its documents; \<^verbatim>\<open>find\<close> keeps the matching
  ones in order. A comparison matches only a document that has the field, and
  \<^verbatim>\<open>$in\<close> over the source keys matches a stored (unicode) string.

  The Elasticsearch client holds, by index name, the documents with their document
  types. The request built at lines 89 to 91 sets no \<^verbatim>\<open>size\<close>, so the response
  carries the first page of hits only, of the client's page length (10 by default),
  next to the total number of matches.
\<close>

datatype connection =
    MongoCollection "post list"
  | ElasticClient nat "(string \<times> (string \<times> post) list) list"

definition date_added_lt :: "datetime \<Rightarrow> post \<Rightarrow> bool" where
  "date_added_lt t p = (case date_added p of Some d \<Rightarrow> d < t | None \<Rightarrow> False)"

definition date_added_lte :: "datetime \<Rightarrow> post \<Rightarrow> bool" where
  "date_added_lte t p = (case date_added p of Some d \<Rightarrow> d \<le> t | None \<Rightarrow> False)"

definition date_added_gt :: "datetime \<Rightarrow> post \<Rightarrow> bool" where
  "date_added_gt t p = (case date_added p of Some d \<Rightarrow> t < d | None \<Rightarrow> False)"

definition source_in :: "string list \<Rightarrow> post \<Rightarrow> bool" where
  "source_in sources p =
     (case source p of Some (Unicode s) \<Rightarrow> s \<in> set sources | _ \<Rightarrow> False)"

definition mongo_find :: "connection \<Rightarrow> (post \<Rightarrow> bool) \<Rightarrow> error + post list" where
  "mongo_find collection query = (case collection of
       MongoCollection docs \<Rightarrow> Inr (filter query docs)
     | ElasticClient n ixs \<Rightarrow>
         Inl (Error ''AttributeError''
           (QUOTE # ''Elasticsearch'' @ QUOTE # '' object has no attribute '' @ QUOTE # ''find'' @ [QUOTE])))"

record es_response =
  hits_total :: nat
  hits :: "post list"

definition us_per_day :: int where
  "us_per_day = 86400000000"

text \<open>
  \<^verbatim>\<open>strftime\<close> of Python 2 refuses a year before 1900 (day 693595 after
  0001-01-01). The formatted bound denotes the same instant, so the model keeps the
  timestamp.
\<close>

definition strftime :: "datetime \<Rightarrow> error + datetime" where
  "strftime t =
     (if t < 693595 * us_per_day
      then Inl (Error ''ValueError'' ''the datetime strftime() methods require year >= 1900'')
      else Inr t)"

definition published_in_range :: "datetime \<Rightarrow> datetime \<Rightarrow> post \<Rightarrow> bool" where
  "published_in_range lt_time gt_time p =
     (case published_date p of Some d \<Rightarrow> d < lt_time \<and> gt_time < d | None \<Rightarrow> False)"

definition es_execute :: "connection \<Rightarrow> string \<Rightarrow> datetime \<Rightarrow> datetime \<Rightarrow> error + es_response" where
  "es_execute collection ix lt_time gt_time = (case collection of
       MongoCollection docs \<Rightarrow>
         Inl (Error ''TypeError'' (QUOTE # ''Collection'' @ QUOTE # '' object is not callable''))
     | ElasticClient page ixs \<Rightarrow>
         (case map_of ixs ix of
            None \<Rightarrow> Inl (Error ''NotFoundError'' ''index_not_found_exception'')
          | Some docs \<Rightarrow>
              (let matches = filter (\<lambda>p. published_in_range lt_time gt_time p \<and> stanford p = Some 1)
                               (map snd (filter (\<lambda>d. fst d = ''news'') docs))
               in Inr \<lparr>hits_total = length matches, hits = take page matches\<rparr>)))"

section \<open>\<^verbatim>\<open>query_all\<close>\<close>

text \<open>
  The two filter documents of the MongoDB branch: lines 61 to 63 (\<^verbatim>\<open>$lt\<close>, for the
  text) and lines 80 to 82 (\<^verbatim>\<open>$lte\<close>, for the returned records).
\<close>

definition query_lt :: "datetime \<Rightarrow> datetime \<Rightarrow> string list \<Rightarrow> post \<Rightarrow> bool" where
  "query_lt lt_date gt_date sources p =
     (date_added_lt lt_date p \<and> date_added_gt gt_date p \<and> source_in sources p)"

definition query_lte :: "datetime \<Rightarrow> datetime \<Rightarrow> string list \<Rightarrow> post \<Rightarrow> bool" where
  "query_lte lt_date gt_date sources p =
     (date_added_lte lt_date p \<and> date_added_gt gt_date p \<and> source_in sources p)"

definition total_events :: "nat \<Rightarrow> event list" where
  "total_events n =
     [Print (''Total number of stories: '' @ decimal n),
      LogInfo (''Total number of stories: '' @ decimal n)]"

text \<open>
  The result is the returned pair (the records and the unicode \<^verbatim>\<open>final_out\<close>) or
  the exception that escapes, together with what was printed and logged on the way.
\<close>

definition query_all ::
  "(pystring \<Rightarrow> error + pystring list) \<Rightarrow> connection \<Rightarrow> datetime \<Rightarrow> datetime \<Rightarrow> string list
     \<Rightarrow> bool \<Rightarrow> string \<Rightarrow> bool \<Rightarrow> (error + post list \<times> string) \<times> event list" where
  "query_all seg collection lt_date gt_date sources elasticsearch ix write_file =
     (if \<not> elasticsearch then
        (case (if write_file then
                 (case mongo_find collection (query_lt lt_date gt_date sources) of
                    Inl e \<Rightarrow> Inl e
                  | Inr posts \<Rightarrow>
                      (case render_loop seg 0 posts ([], []) of
                         (output, evs) \<Rightarrow> Inr (join_strings [NL] output, evs)))
               else Inr ([], [])) of
           Inl e \<Rightarrow> (Inl e, [])
         | Inr (final_out, evs) \<Rightarrow>
             (case mongo_find collection (query_lte lt_date gt_date sources) of
                Inl e \<Rightarrow> (Inl e, evs)
              | Inr posts \<Rightarrow> (Inr (posts, final_out), evs @ total_events (length posts))))
      else
        (case strftime lt_date of
           Inl e \<Rightarrow> (Inl e, [])
         | Inr lt_time \<Rightarrow>
             (case strftime gt_date of
                Inl e \<Rightarrow> (Inl e, [])
              | Inr gt_time \<Rightarrow>
                  (case es_execute collection ix lt_time gt_time of
                     Inl e \<Rightarrow> (Inl e, [])
                   | Inr posts \<Rightarrow> (Inr (hits posts, []), total_events (hits_total posts))))))"

section \<open>\<^verbatim>\<open>_get_sources\<close> and \<^verbatim>\<open>main\<close>\<close>

text \<open>\<^verbatim>\<open>f.readlines()\<close>: the lines of a file, each with its newline.\<close>

fun readlines_from :: "string \<Rightarrow> string \<Rightarrow> string list" where
  "readlines_from cur [] = (if cur = [] then [] else [rev cur])"
| "readlines_from cur (c # cs) =
     (if c = NL then rev (c # cur) # readlines_from [] cs else readlines_from (c # cur) cs)"

definition get_sources :: "(string \<Rightarrow> string option) \<Rightarrow> string \<Rightarrow> error + string list" where
  "get_sources fs filepath = (case fs filepath of
       None \<Rightarrow> Inl (Error ''IOError'' ''No such file or directory'')
     | Some contents \<Rightarrow>
         map_err (\<lambda>key. bind_err (str_replace (Str key) [NL] []) (\<lambda>k. Inr (payload k)))
           (readlines_from [] contents))"

text \<open>
  \<^verbatim>\<open>process_date\<close> is read through its year, month and day. The constructor
  \<^verbatim>\<open>datetime.datetime(y, m, d)\<close> gives midnight of that day in the proleptic
  Gregorian calendar, and adding a \<^verbatim>\<open>timedelta\<close> raises \<^verbatim>\<open>OverflowError\<close>
  outside the years 1 to 9999.
\<close>

record pydate =
  year :: nat
  month :: nat
  day :: nat

definition is_leap :: "nat \<Rightarrow> bool" where
  "is_leap y = (y mod 4 = 0 \<and> (y mod 100 \<noteq> 0 \<or> y mod 400 = 0))"

definition days_in_month :: "nat \<Rightarrow> nat \<Rightarrow> nat" where
  "days_in_month y m =
     (if m = 2 then (if is_leap y then 29 else 28)
      else if m = 4 \<or> m = 6 \<or> m = 9 \<or> m = 11 then 30 else 31)"

definition days_before_year :: "nat \<Rightarrow> nat" where
  "days_before_year y = (y - 1) * 365 + (y - 1) div 4 - (y - 1) div 100 + (y - 1) div 400"

definition days_before_month :: "nat \<Rightarrow> nat \<Rightarrow> nat" where
  "days_before_month y m =
     [0, 0, 31, 59, 90, 120, 151, 181, 212, 243, 273, 304, 334] ! m
     + (if 2 < m \<and> is_leap y then 1 else 0)"

definition ymd2ord :: "nat \<Rightarrow> nat \<Rightarrow> nat \<Rightarrow> nat" where
  "ymd2ord y m d = days_before_year y + days_before_month y m + d"

definition midnight :: "pydate \<Rightarrow> datetime" where
  "midnight d = (int (ymd2ord (year d) (month d) (day d)) - 1) * us_per_day"

definition datetime_new :: "nat \<Rightarrow> nat \<Rightarrow> nat \<Rightarrow> error + datetime" where
  "datetime_new y m d =
     (if 1 \<le> y \<and> y \<le> 9999 \<and> 1 \<le> m \<and> m \<le> 12 \<and> 1 \<le> d \<and> d \<le> days_in_month y m
      then Inr ((int (ymd2ord y m d) - 1) * us_per_day)
      else Inl (Error ''ValueError'' ''date value out of range''))"

definition add_days :: "datetime \<Rightarrow> int \<Rightarrow> error + datetime" where
  "add_days t n =
     (let r = t + n * us_per_day
      in if 0 \<le> r \<and> r < 3652059 * us_per_day then Inr r
         else Inl (Error ''OverflowError'' ''date value out of range''))"

text \<open>Lines 172 to 175: the bounds \<^verbatim>\<open>(less_than, greater_than)\<close> of the day's window.\<close>

definition window :: "pydate \<Rightarrow> error + datetime \<times> datetime" where
  "window process_date =
     bind_err (datetime_new (year process_date) (month process_date) (day process_date)) (\<lambda>less_than_0.
     bind_err (add_days less_than_0 (- 1)) (\<lambda>greater_than.
     bind_err (add_days less_than_0 1) (\<lambda>less_than_1.
       Inr (less_than_1, greater_than))))"

text \<open>
  \<^verbatim>\<open>text.decode('utf-8')\<close> on the unicode \<^verbatim>\<open>text\<close>: Python 2 first encodes it with
  the ASCII codec, which raises \<^verbatim>\<open>UnicodeEncodeError\<close> on a character above 127.
\<close>

definition unicode_decode :: "string \<Rightarrow> error + string" where
  "unicode_decode u = (case find_non_ascii 0 u of
       None \<Rightarrow> Inr u
     | Some (i, c) \<Rightarrow> Inl (Error ''UnicodeEncodeError'' ''ordinal not in range(128)''))"

record file_details =
  elasticsearch :: bool
  index :: string
  auth_db :: string
  auth_user :: string
  auth_pass :: string
  db_host :: string

text \<open>
  What \<^verbatim>\<open>main\<close> reaches outside the module: the files it can open, the connection
  \<^verbatim>\<open>utilities.make_conn\<close> returns, the \<^verbatim>\<open>Elasticsearch()\<close> client and the
  sentence segmenter.
\<close>

record env =
  files :: "string \<Rightarrow> string option"
  make_conn :: "string \<Rightarrow> string \<Rightarrow> string \<Rightarrow> string \<Rightarrow> error + connection"
  es_client :: connection
  sentence_segmenter :: "pystring \<Rightarrow> error + pystring list"

definition truthy :: "pystring option \<Rightarrow> bool" where
  "truthy s = (case s of None \<Rightarrow> False | Some t \<Rightarrow> payload t \<noteq> [])"

definition format_filename :: "pystring option \<Rightarrow> pydate \<Rightarrow> error + string" where
  "format_filename file_stem d = (case file_stem of
       None \<Rightarrow> Inr (''None'' @ pad2 (year d) @ pad2 (month d) @ pad2 (day d) @ ''.txt'')
     | Some t \<Rightarrow>
         bind_err (to_unicode t) (\<lambda>stem.
           Inr (stem @ pad2 (year d) @ pad2 (month d) @ pad2 (day d) @ ''.txt'')))"

definition write_results ::
  "pydate \<Rightarrow> pystring option \<Rightarrow> post list \<Rightarrow> string \<Rightarrow> event list
     \<Rightarrow> (error + post list \<times> string) \<times> event list" where
  "write_results process_date file_stem results txt evs =
     (if txt \<noteq> [] then
        (case unicode_decode txt of
           Inl e \<Rightarrow> (Inl e, evs)
         | Inr decoded \<Rightarrow>
             if truthy file_stem then
               (case format_filename file_stem process_date of
                  Inl e \<Rightarrow> (Inl e, evs)
                | Inr filename \<Rightarrow> (Inr (results, filename), evs @ [WriteFile filename decoded]))
             else (Inr (results, []), evs @ [Print ''Need filestem to write results to file.'']))
      else (Inr (results, []), evs))"

definition main ::
  "env \<Rightarrow> pydate \<Rightarrow> file_details \<Rightarrow> bool \<Rightarrow> pystring option
     \<Rightarrow> (error + post list \<times> string) \<times> event list" where
  "main w process_date fd write_file file_stem =
     (case get_sources (files w) ''source_keys.txt'' of
        Inl e \<Rightarrow> (Inl e, [])
      | Inr sources \<Rightarrow>
     (case (if elasticsearch fd then Inr (es_client w)
            else make_conn w (auth_db fd) (auth_user fd) (auth_pass fd) (db_host fd)) of
        Inl e \<Rightarrow> (Inl e, [])
      | Inr conn \<Rightarrow>
     (case window process_date of
        Inl e \<Rightarrow> (Inl e, [])
      | Inr (less_than_1, greater_than) \<Rightarrow>
     (case query_all (sentence_segmenter w) conn less_than_1 greater_than sources
             (elasticsearch fd) (index fd) write_file of
        (Inl e, evs) \<Rightarrow> (Inl e, evs)
      | (Inr (results, txt), evs) \<Rightarrow>
          write_results process_date file_stem results txt evs))))"

section \<open>A sentence segmenter for the examples\<close>

text \<open>
  Modelled from the spec: \<^verbatim>\<open>utilities.sentence_segmenter\<close> is not part of the
  module. The spec describes it as a sentence-boundary heuristic that splits a text
  into a sequence of sentence strings, and its scenario splits
  \<^verbatim>\<open>Sentence one. Sentence two.\<close> into \<^verbatim>\<open>Sentence one.\<close> and \<^verbatim>\<open>Sentence two.\<close>:
  a sentence ends at a full stop, question mark or exclamation mark that is followed
  by a blank or by the end of the text, and the blanks between sentences are dropped.
  The theorems below hold for every segmenter; this one serves their examples.
\<close>

fun split_sentences :: "string \<Rightarrow> string \<Rightarrow> string list" where
  "split_sentences cur [] = (if cur = [] then [] else [rev cur])"
| "split_sentences cur (c # cs) =
     (if cur = [] \<and> c = CHR '' '' then split_sentences [] cs
      else if (c = CHR ''.'' \<or> c = CHR ''?'' \<or> c = CHR ''!'') \<and> (cs = [] \<or> hd cs = CHR '' '')
      then rev (c # cur) # split_sentences [] cs
      else split_sentences (c # cur) cs)"

definition simple_segmenter :: "pystring \<Rightarrow> error + pystring list" where
  "simple_segmenter t = (case t of
       Str b \<Rightarrow> Inr (map Str (split_sentences [] b))
     | Unicode u \<Rightarrow> Inr (map Unicode (split_sentences [] u)))"

text \<open>
  The document of the spec's literal scenario, stored at time \<open>t\<close>, and the same
  document with a byte-string content that the ASCII codec cannot decode.
\<close>

definition reuters_post :: "datetime \<Rightarrow> post" where
  "reuters_post t =
     \<lparr>date_added = Some t, published_date = None, stanford = None,
      source = Some (Unicode ''reuters''),
      content = Some (Unicode ''Sentence one. Sentence two. Sentence three. Sentence four. Sentence five.''),
      url = Some (Unicode ''u1''), date = Some (Unicode ''2024-01-01'')\<rparr>"

definition undecodable_post :: "datetime \<Rightarrow> post" where
  "undecodable_post t = (reuters_post t)\<lparr>content := Some (Str [CHR 0xC3, CHR 0xA9])\<rparr>"

text \<open>The scenario's document without the \<^verbatim>\<open>content\<close> key.\<close>

definition missing_content_post :: "datetime \<Rightarrow> post" where
  "missing_content_post t = (reuters_post t)\<lparr>content := None\<rparr>"

text \<open>The scenario's document as an indexed document that passed the upstream stage.\<close>

definition es_post :: "datetime \<Rightarrow> post" where
  "es_post t = (reuters_post t)\<lparr>published_date := Some t, stanford := Some 1\<rparr>"

text \<open>
  An \<^verbatim>\<open>aljazeera\<close> document whose content is \<^verbatim>\<open>Caution\<close>, then the browser
  warning, then the warning without its first seven characters.
\<close>

definition spliced_post :: post where
  "spliced_post =
     \<lparr>date_added = Some 5, published_date = None, stanford = None,
      source = Some (Unicode ''aljazeera''),
      content = Some (Unicode (''Caution'' @ boilerplate @ drop 7 boilerplate)),
      url = Some (Unicode ''u1''), date = Some (Unicode ''2024-01-01'')\<rparr>"

text \<open>
  An \<^verbatim>\<open>aljazeera\<close> document with the browser warning between two sentences.
\<close>

definition breaking_post :: post where
  "breaking_post =
     \<lparr>date_added = Some 63839664000000000, published_date = None, stanford = None,
      source = Some (Unicode ''aljazeera''),
      content = Some (Unicode (''Breaking news. '' @ boilerplate @ '' More text.'')),
      url = Some (Unicode ''u1''), date = Some (Unicode ''2024-01-01'')\<rparr>"

text \<open>
  An environment whose source list holds \<^verbatim>\<open>reuters\<close> and whose MongoDB collection
  holds the given documents, and a configuration that selects MongoDB.
\<close>

definition example_env :: "post list \<Rightarrow> env" where
  "example_env docs =
     \<lparr>files = [''source_keys.txt'' \<mapsto> ''reuters'' @ [NL]],
      make_conn = (\<lambda>db user pass host. Inr (MongoCollection docs)),
      es_client = ElasticClient 10 [],
      sentence_segmenter = simple_segmenter\<rparr>"

definition mongo_details :: file_details where
  "mongo_details =
     \<lparr>elasticsearch = False, index = ''idx'', auth_db = ''db'', auth_user = ''user'',
      auth_pass = ''pass'', db_host = ''localhost''\<rparr>"

section \<open>Vocabulary of the properties\<close>

text \<open>
  The number of places at which a pattern occurs in a string (overlapping occurrences
  counted), and what a call of \<^verbatim>\<open>query_all\<close> hands back when it returns.
\<close>

fun count_occurrences :: "string \<Rightarrow> string \<Rightarrow> nat" where
  "count_occurrences pat [] = (if pat = [] then 1 else 0)"
| "count_occurrences pat (c # cs) =
     (if startswith (c # cs) pat then 1 else 0) + count_occurrences pat cs"

text \<open>
  A string of decimal digits read as a number, and the lines an event list sends to
  standard output and to the logger.
\<close>

definition read_decimal :: "string \<Rightarrow> nat" where
  "read_decimal s = foldl (\<lambda>acc c. 10 * acc + (of_char c - 48)) 0 s"

fun printed :: "event list \<Rightarrow> string list" where
  "printed [] = []"
| "printed (Print s # evs) = s # printed evs"
| "printed (LogInfo s # evs) = printed evs"
| "printed (WriteFile f s # evs) = printed evs"

fun logged :: "event list \<Rightarrow> string list" where
  "logged [] = []"
| "logged (Print s # evs) = logged evs"
| "logged (LogInfo s # evs) = s # logged evs"
| "logged (WriteFile f s # evs) = logged evs"

definition returned_records :: "(error + post list \<times> string) \<times> event list \<Rightarrow> post list" where
  "returned_records r = (case fst r of Inl e \<Rightarrow> [] | Inr (posts, final_out) \<Rightarrow> posts)"

definition returned_text :: "(error + post list \<times> string) \<times> event list \<Rightarrow> string" where
  "returned_text r = (case fst r of Inl e \<Rightarrow> [] | Inr (posts, final_out) \<Rightarrow> final_out)"

section \<open>Basic facts\<close>

lemma decimal_digit [simp]: "n < 10 \<Longrightarrow> decimal n = [digit_char n]"
  by (subst decimal.simps) simp

lemma decimal_more [simp]:
  "10 \<le> n \<Longrightarrow> decimal n = decimal (n div 10) @ [digit_char (n mod 10)]"
  by (subst decimal.simps) simp

lemmas model_defs =
  query_all_def mongo_find_def es_execute_def strftime_def us_per_day_def published_in_range_def
  query_lt_def query_lte_def date_added_lt_def date_added_lte_def date_added_gt_def source_in_def
  render_post_def cleaned_content_def getitem_def encode_utf8_def ascii_decode_def decode_error_def
  bind_err_def make_header_def str_replace_def py_replace_def unicode_join_def to_unicode_def
  format_entry_def digit_char_def pad2_def total_events_def error_line_def
  simple_segmenter_def reuters_post_def undecodable_post_def returned_records_def returned_text_def

lemma bind_err_simps:
  "bind_err (Inr x) f = f x"
  "bind_err (Inl e) f = Inl e"
  by (simp_all add: bind_err_def)

lemma render_loop_eq:
  "render_loop seg n ps (out, evs) =
     (out @ concat (map (\<lambda>(k, p). case render_post seg k p of Inr s \<Rightarrow> [s] | Inl e \<Rightarrow> []) (enumerate n ps)),
      evs @ concat (map (\<lambda>(k, p). case render_post seg k p of Inr s \<Rightarrow> [] | Inl e \<Rightarrow> [Print (error_line k e)])
                     (enumerate n ps)))"
proof (induction ps arbitrary: n out evs)
  case Nil
  show ?case by simp
next
  case (Cons p ps)
  show ?case
  proof (cases "render_post seg n p")
    case (Inl e)
    then show ?thesis using Cons.IH [of "Suc n" out "evs @ [Print (error_line n e)]"] by simp
  next
    case (Inr s)
    then show ?thesis using Cons.IH [of "Suc n" "out @ [s]" evs] by simp
  qed
qed

lemma enumerate_nth: "enumerate 0 xs = map (\<lambda>k. (k, xs ! k)) [0..<length xs]"
  by (rule nth_equalityI) (simp_all add: nth_enumerate_eq)

lemma query_all_mongo:
  "query_all seg (MongoCollection docs) lt_date gt_date sources False ix write_file =
     (Inr (filter (query_lte lt_date gt_date sources) docs,
           if write_file
           then join_strings [NL] (fst (render_loop seg 0 (filter (query_lt lt_date gt_date sources) docs) ([], [])))
           else []),
      (if write_file
       then snd (render_loop seg 0 (filter (query_lt lt_date gt_date sources) docs) ([], []))
       else [])
      @ total_events (length (filter (query_lte lt_date gt_date sources) docs)))"
  by (simp add: query_all_def mongo_find_def split: prod.splits)

lemma render_post_index:
  "render_post seg k p = Inr s \<Longrightarrow> \<exists>rest. s = decimal k @ TAB # rest"
  by (auto simp: render_post_def format_entry_def bind_err_def split: sum.splits)

text \<open>The printed index reads back as the number, and holds no tab.\<close>

lemma of_char_digit_char:
  assumes "d < 10"
  shows "(of_char (digit_char d) :: nat) = 48 + d"
proof -
  from assms have "d \<in> {9, 8, 7, 6, 5, 4, 3, 2, 1, 0}" by auto
  then show ?thesis by (auto simp: digit_char_def)
qed

lemma read_decimal_snoc: "read_decimal (s @ [c]) = 10 * read_decimal s + (of_char c - 48)"
  by (simp add: read_decimal_def)

lemma read_decimal_decimal: "read_decimal (decimal n) = n"
proof (induction n rule: decimal.induct)
  case (1 n)
  show ?case
  proof (cases "n < 10")
    case True
    then show ?thesis by (simp add: read_decimal_def of_char_digit_char)
  next
    case False
    then have "read_decimal (decimal n) =
        10 * read_decimal (decimal (n div 10)) + (of_char (digit_char (n mod 10)) - 48)"
      by (simp add: read_decimal_snoc)
    also have "\<dots> = 10 * (n div 10) + n mod 10"
      using 1 False by (simp add: of_char_digit_char)
    finally show ?thesis by simp
  qed
qed

lemma decimal_digits: "c \<in> set (decimal n) \<Longrightarrow> \<exists>d<10. c = digit_char d"
proof (induction n rule: decimal.induct)
  case (1 n)
  show ?case
  proof (cases "n < 10")
    case True
    with "1.prems" show ?thesis by auto
  next
    case False
    with "1.prems" have "c \<in> set (decimal (n div 10)) \<or> c = digit_char (n mod 10)" by auto
    then show ?thesis
    proof
      assume "c \<in> set (decimal (n div 10))"
      with 1 False show ?thesis by simp
    next
      assume "c = digit_char (n mod 10)"
      moreover have "n mod 10 < 10" by simp
      ultimately show ?thesis by blast
    qed
  qed
qed

lemma decimal_no_tab: "c \<in> set (decimal n) \<Longrightarrow> c \<noteq> TAB"
proof
  assume c: "c \<in> set (decimal n)" and t: "c = TAB"
  from decimal_digits [OF c] obtain d where d: "d < 10" "c = digit_char d" by blast
  then have "(of_char c :: nat) = 48 + d" by (simp add: of_char_digit_char)
  with t show False by simp
qed

lemma block_index:
  assumes "render_post seg k p = Inr s"
  shows "takeWhile (\<lambda>c. c \<noteq> TAB) s = decimal k"
proof -
  from render_post_index [OF assms] obtain rest where s: "s = decimal k @ TAB # rest" by blast
  have "takeWhile (\<lambda>c. c \<noteq> TAB) (decimal k @ TAB # rest) = decimal k"
    using decimal_no_tab [of _ k] by (simp add: takeWhile_tail takeWhile_eq_all_conv)
  with s show ?thesis by simp
qed

section \<open>The renderer\<close>

lemma to_unicode_ascii: "find_non_ascii 0 (payload t) = None \<Longrightarrow> to_unicode t = Inr (payload t)"
  by (cases t) (simp_all add: to_unicode_def ascii_decode_def)

text \<open>
  C4. The literal scenario: the source set holds \<^verbatim>\<open>reuters\<close>, the collection holds
  the one scenario record, stored at a time \<open>D0\<close> inside the window, and the segmenter
  splits its content into the five sentences. With the text requested, the MongoDB
  branch returns that record and the text
  \<^verbatim>\<open>0\t2024-01-01\tu1\nSentence one.  Sentence two.  Sentence three.  Sentence four.\n\<close>.
\<close>

theorem literal_scenario_artifact:
  assumes seg: "seg (Str ''Sentence one. Sentence two. Sentence three. Sentence four. Sentence five.'') = Inr sents"
    and sents: "map payload sents =
        [''Sentence one.'', ''Sentence two.'', ''Sentence three.'', ''Sentence four.'', ''Sentence five.'']"
    and inside: "gt_date < D0" "D0 < lt_date"
  shows "query_all seg (MongoCollection [reuters_post D0]) lt_date gt_date [''reuters''] False ix True =
     (Inr ([reuters_post D0],
           CHR ''0'' # TAB # ''2024-01-01'' @ TAB # ''u1'' @ NL
             # ''Sentence one.  Sentence two.  Sentence three.  Sentence four.'' @ [NL]),
      [Print ''Total number of stories: 1'', LogInfo ''Total number of stories: 1''])"
proof -
  from sents obtain a b c d e where abc: "sents = [a, b, c, d, e]"
    and pa: "payload a = ''Sentence one.''" and pb: "payload b = ''Sentence two.''"
    and pc: "payload c = ''Sentence three.''" and pd: "payload d = ''Sentence four.''"
    by (auto simp: map_eq_Cons_conv)
  have ua: "to_unicode a = Inr ''Sentence one.''"
    using to_unicode_ascii [of a] by (simp add: pa)
  have ub: "to_unicode b = Inr ''Sentence two.''"
    using to_unicode_ascii [of b] by (simp add: pb)
  have uc: "to_unicode c = Inr ''Sentence three.''"
    using to_unicode_ascii [of c] by (simp add: pc)
  have ud: "to_unicode d = Inr ''Sentence four.''"
    using to_unicode_ascii [of d] by (simp add: pd)
  have header: "make_header seg (Str ''Sentence one. Sentence two. Sentence three. Sentence four. Sentence five.'')
      = Inr ''Sentence one.  Sentence two.  Sentence three.  Sentence four.''"
    by (simp add: make_header_def seg abc unicode_join_def bind_err_simps ua ub uc ud)
  have cleaned: "cleaned_content (reuters_post D0) =
      Inr (Str ''Sentence one. Sentence two. Sentence three. Sentence four. Sentence five.'')"
    by (simp add: cleaned_content_def reuters_post_def getitem_def encode_utf8_def bind_err_simps)
  have block: "render_post seg 0 (reuters_post D0) =
      Inr (CHR ''0'' # TAB # ''2024-01-01'' @ TAB # ''u1'' @ NL
             # ''Sentence one.  Sentence two.  Sentence three.  Sentence four.'' @ [NL])"
    unfolding render_post_def cleaned bind_err_simps header
    by (simp add: format_entry_def reuters_post_def getitem_def to_unicode_def digit_char_def
        bind_err_simps)
  have lt: "filter (query_lt lt_date gt_date [''reuters'']) [reuters_post D0] = [reuters_post D0]"
    using inside by (simp add: query_lt_def date_added_lt_def date_added_gt_def source_in_def reuters_post_def)
  have lte: "filter (query_lte lt_date gt_date [''reuters'']) [reuters_post D0] = [reuters_post D0]"
    using inside by (simp add: query_lte_def date_added_lte_def date_added_gt_def source_in_def reuters_post_def)
  show ?thesis
    unfolding query_all_mongo lt lte
    by (simp add: block total_events_def digit_char_def)
qed

text \<open>The scenario with the segmenter of the examples and the window from 4 to 6.\<close>

theorem literal_scenario_artifact_witness:
  "query_all simple_segmenter (MongoCollection [reuters_post 5]) 6 4 [''reuters''] False ''idx'' True =
     (Inr ([reuters_post 5],
           CHR ''0'' # TAB # ''2024-01-01'' @ TAB # ''u1'' @ NL
             # ''Sentence one.  Sentence two.  Sentence three.  Sentence four.'' @ [NL]),
      [Print ''Total number of stories: 1'', LogInfo ''Total number of stories: 1''])"
proof -
  have seg: "simple_segmenter (Str ''Sentence one. Sentence two. Sentence three. Sentence four. Sentence five.'')
      = Inr (map Str [''Sentence one.'', ''Sentence two.'', ''Sentence three.'', ''Sentence four.'',
                      ''Sentence five.''])"
    by (simp add: simple_segmenter_def)
  have sents: "map payload (map Str [''Sentence one.'', ''Sentence two.'', ''Sentence three.'',
        ''Sentence four.'', ''Sentence five.'']) =
      [''Sentence one.'', ''Sentence two.'', ''Sentence three.'', ''Sentence four.'', ''Sentence five.'']"
    by simp
  have inside: "(4::int) < 5" "(5::int) < 6" by simp_all
  show ?thesis
    by (rule literal_scenario_artifact [of simple_segmenter, OF seg sents inside])
qed

text \<open>
  C8. For a record whose source does not compare equal to \<^verbatim>\<open>aljazeera\<close>, nothing is
  removed: the content handed on is the result of \<^verbatim>\<open>encode('utf-8')\<close>, which has
  the bytes of the stored content, and the segmenter is applied to exactly that.
\<close>

theorem other_sources_keep_content:
  assumes src: "source p = Some src" and other: "\<not> py_eq src (Unicode ''aljazeera'')"
    and cont: "content p = Some c"
  shows "cleaned_content p = encode_utf8 c
     \<and> (\<forall>e. encode_utf8 c = Inr e \<longrightarrow>
            payload e = payload c
          \<and> render_post seg num p = bind_err (make_header seg e) (format_entry num p))"
proof -
  have cleaned: "cleaned_content p = encode_utf8 c"
    using src other cont
    by (cases "encode_utf8 c") (simp_all add: cleaned_content_def getitem_def bind_err_simps)
  have "payload e = payload c" if "encode_utf8 c = Inr e" for e
    using that by (cases c) (auto simp: encode_utf8_def ascii_decode_def bind_err_def split: option.splits)
  moreover have "render_post seg num p = bind_err (make_header seg e) (format_entry num p)"
    if "encode_utf8 c = Inr e" for e
    using that by (simp add: render_post_def cleaned bind_err_simps)
  ultimately show ?thesis using cleaned by blast
qed

text \<open>The scenario record, whose source is \<^verbatim>\<open>reuters\<close>.\<close>

theorem other_sources_keep_content_witness:
  "cleaned_content (reuters_post 5) =
     Inr (Str ''Sentence one. Sentence two. Sentence three. Sentence four. Sentence five.'')
   \<and> payload (Str ''Sentence one. Sentence two. Sentence three. Sentence four. Sentence five.'') =
       payload (Unicode ''Sentence one. Sentence two. Sentence three. Sentence four. Sentence five.'')"
proof -
  have src: "source (reuters_post 5) = Some (Unicode ''reuters'')"
    and cont: "content (reuters_post 5) =
      Some (Unicode ''Sentence one. Sentence two. Sentence three. Sentence four. Sentence five.'')"
    by (simp_all add: reuters_post_def)
  have other: "\<not> py_eq (Unicode ''reuters'') (Unicode ''aljazeera'')" by simp
  have enc: "encode_utf8 (Unicode ''Sentence one. Sentence two. Sentence three. Sentence four. Sentence five.'')
      = Inr (Str ''Sentence one. Sentence two. Sentence three. Sentence four. Sentence five.'')"
    by (simp add: encode_utf8_def)
  from other_sources_keep_content [OF src other cont, of simple_segmenter 0] enc
  show ?thesis by simp
qed

lemma startswith_append: "startswith (pat @ s) pat"
  by (induction pat) simp_all

lemma count_suffix_le: "count_occurrences pat s \<le> count_occurrences pat (p @ s)"
  by (induction p) simp_all

lemma count_pat_append:
  assumes "pat \<noteq> []"
  shows "Suc (count_occurrences pat s) \<le> count_occurrences pat (pat @ s)"
proof -
  from assms obtain a pat' where pat: "pat = a # pat'" by (cases pat) auto
  have "startswith (pat @ s) pat" by (rule startswith_append)
  then have "count_occurrences pat (pat @ s) = Suc (count_occurrences pat (pat' @ s))"
    by (simp add: pat)
  moreover have "count_occurrences pat s \<le> count_occurrences pat (pat' @ s)"
    by (rule count_suffix_le)
  ultimately show ?thesis by simp
qed

lemma replace_from_none:
  "pat \<noteq> [] \<Longrightarrow> count_occurrences pat s = 0 \<Longrightarrow> replace_from pat new s = s"
proof (induction s)
  case Nil
  show ?case by (subst replace_from.simps) simp
next
  case (Cons c cs)
  from Cons.prems have no: "\<not> startswith (c # cs) pat" and rest: "count_occurrences pat cs = 0"
    by (auto split: if_splits)
  show ?case
    by (subst replace_from.simps) (simp add: no Cons.IH [OF Cons.prems(1) rest] Cons.prems(1))
qed

lemma replace_from_once:
  "pat \<noteq> [] \<Longrightarrow> count_occurrences pat (pre @ pat @ suf) = 1 \<Longrightarrow>
     replace_from pat new (pre @ pat @ suf) = pre @ new @ suf"
proof (induction pre)
  case Nil
  have "Suc (count_occurrences pat suf) \<le> count_occurrences pat (pat @ suf)"
    by (rule count_pat_append [OF Nil.prems(1)])
  with Nil.prems(2) have "count_occurrences pat suf = 0" by simp
  then have tail: "replace_from pat new suf = suf"
    by (rule replace_from_none [OF Nil.prems(1)])
  show ?case
    by (subst replace_from.simps) (simp add: Nil.prems(1) startswith_append tail)
next
  case (Cons c pre)
  have "Suc 0 \<le> count_occurrences pat (pat @ suf)"
    using count_pat_append [OF Cons.prems(1), of suf] by simp
  also have "\<dots> \<le> count_occurrences pat (pre @ pat @ suf)"
    by (rule count_suffix_le)
  finally have one: "1 \<le> count_occurrences pat (pre @ pat @ suf)" by simp
  with Cons.prems(2) have no: "\<not> startswith (c # pre @ pat @ suf) pat"
    and rest: "count_occurrences pat (pre @ pat @ suf) = 1"
    by (auto split: if_splits)
  show ?case
    by (subst replace_from.simps) (simp add: no Cons.IH [OF Cons.prems(1) rest] Cons.prems(1))
qed

lemma boilerplate_ne: "boilerplate \<noteq> []"
  by (simp add: boilerplate_def)

section \<open>Removal of the browser warning\<close>

text \<open>
  C7, as the source has it. For a record whose source compares equal to
  \<^verbatim>\<open>aljazeera\<close> and whose content is ASCII and holds the browser warning exactly
  once, between \<open>pre\<close> and \<open>suf\<close>, the text handed to the segmenter is \<open>pre\<close>
  followed by \<open>suf\<close>: that occurrence is deleted. The header is made of the first
  four sentences that the segmenter returns for this text, joined by two blanks, and
  the block of the record carries that header.
\<close>

theorem single_boilerplate_removed:
  assumes src: "source p = Some src" and alj: "py_eq src (Unicode ''aljazeera'')"
    and cont: "content p = Some c"
    and ascii: "find_non_ascii 0 (payload c) = None"
    and split: "payload c = pre @ boilerplate @ suf"
    and once: "count_occurrences boilerplate (payload c) = 1"
    and seg: "seg (Unicode (pre @ suf)) = Inr sents"
    and uni: "map_err to_unicode (take 4 sents) = Inr us"
  shows "cleaned_content p = Inr (Unicode (pre @ suf))
       \<and> make_header seg (Unicode (pre @ suf)) = Inr (join_strings ''  '' us)
       \<and> render_post seg num p = format_entry num p (join_strings ''  '' us)"
proof -
  have enc: "encode_utf8 c = Inr (Str (payload c))"
    using ascii by (cases c) (simp_all add: encode_utf8_def ascii_decode_def bind_err_simps)
  have "py_replace (payload c) boilerplate [] = pre @ suf"
    using replace_from_once [OF boilerplate_ne, of pre suf "[]"] once
    by (simp add: py_replace_def boilerplate_ne split)
  then have "str_replace (Str (payload c)) boilerplate [] = Inr (Unicode (pre @ suf))"
    using ascii by (simp add: str_replace_def to_unicode_def ascii_decode_def bind_err_simps)
  then have cleaned: "cleaned_content p = Inr (Unicode (pre @ suf))"
    using src alj cont by (simp add: cleaned_content_def getitem_def bind_err_simps enc)
  have header: "make_header seg (Unicode (pre @ suf)) = Inr (join_strings ''  '' us)"
    by (simp add: make_header_def seg unicode_join_def uni bind_err_simps)
  have "render_post seg num p = format_entry num p (join_strings ''  '' us)"
    by (simp add: render_post_def cleaned header bind_err_simps)
  with cleaned header show ?thesis by blast
qed

text \<open>
  The warning between \<^verbatim>\<open>Breaking news. \<close> and \<^verbatim>\<open> More text.\<close>: the segmenter of
  the examples receives \<^verbatim>\<open>Breaking news.  More text.\<close> and the header is made of
  its two sentences.
\<close>

theorem single_boilerplate_removed_witness:
  "cleaned_content breaking_post = Inr (Unicode ''Breaking news.  More text.'')
   \<and> make_header simple_segmenter (Unicode ''Breaking news.  More text.'') =
       Inr ''Breaking news.  More text.''
   \<and> render_post simple_segmenter 0 breaking_post =
       Inr (CHR ''0'' # TAB # ''2024-01-01'' @ TAB # ''u1'' @ NL # ''Breaking news.  More text.'' @ [NL])"
proof -
  let ?c = "Unicode (''Breaking news. '' @ boilerplate @ '' More text.'')"
  have src: "source breaking_post = Some (Unicode ''aljazeera'')"
    and cont: "content breaking_post = Some ?c"
    by (simp_all add: breaking_post_def)
  have alj: "py_eq (Unicode ''aljazeera'') (Unicode ''aljazeera'')" by simp
  have ascii: "find_non_ascii 0 (payload ?c) = None" by code_simp
  have split: "payload ?c = ''Breaking news. '' @ boilerplate @ '' More text.''" by simp
  have once: "count_occurrences boilerplate (payload ?c) = 1" by code_simp
  have seg: "simple_segmenter (Unicode (''Breaking news. '' @ '' More text.'')) =
      Inr [Unicode ''Breaking news.'', Unicode ''More text.'']"
    by (simp add: simple_segmenter_def)
  have uni: "map_err to_unicode (take 4 [Unicode ''Breaking news.'', Unicode ''More text.'']) =
      Inr [''Breaking news.'', ''More text.'']"
    by (simp add: to_unicode_def bind_err_simps)
  have fmt: "format_entry 0 breaking_post (join_strings ''  '' [''Breaking news.'', ''More text.'']) =
      Inr (CHR ''0'' # TAB # ''2024-01-01'' @ TAB # ''u1'' @ NL # ''Breaking news.  More text.'' @ [NL])"
    by (simp add: format_entry_def breaking_post_def getitem_def to_unicode_def bind_err_simps
        digit_char_def)
  from single_boilerplate_removed [of breaking_post, OF src alj cont ascii split once, of simple_segmenter,
      OF seg uni, of 0] fmt
  show ?thesis by simp
qed

text \<open>
  C7 as stated fails. The content \<^verbatim>\<open>Caution\<close> + warning + rest of the warning holds
  the warning exactly once; deleting that occurrence splices the two pieces into the
  warning again, which the segmenter of the examples splits into its four sentences,
  and joining them by two blanks gives the warning back as the header.
\<close>

theorem spliced_boilerplate_counterexample:
  "source spliced_post = Some (Unicode ''aljazeera'')
   \<and> content spliced_post = Some (Unicode (''Caution'' @ boilerplate @ drop 7 boilerplate))
   \<and> count_occurrences boilerplate (''Caution'' @ boilerplate @ drop 7 boilerplate) = 1
   \<and> cleaned_content spliced_post = Inr (Unicode boilerplate)
   \<and> make_header simple_segmenter (Unicode boilerplate) = Inr boilerplate
   \<and> render_post simple_segmenter 0 spliced_post =
       Inr (CHR ''0'' # TAB # ''2024-01-01'' @ TAB # ''u1'' @ NL # boilerplate @ [NL])
   \<and> count_occurrences boilerplate boilerplate = 1"
  by code_simp

section \<open>The window's bounds\<close>

lemma returned_records_mongo:
  "returned_records (query_all seg (MongoCollection docs) lt_date gt_date sources False ix write_file) =
     filter (query_lte lt_date gt_date sources) docs"
  by (simp add: query_all_mongo returned_records_def)

lemma returned_records_es:
  "set (returned_records (query_all seg conn lt_date gt_date sources True ix write_file))
     \<subseteq> {p. published_in_range lt_date gt_date p}"
proof (cases conn)
  case (MongoCollection docs)
  then show ?thesis
    by (simp add: query_all_def es_execute_def returned_records_def strftime_def)
next
  case (ElasticClient page ixs)
  show ?thesis
  proof (cases "map_of ixs ix")
    case None
    with ElasticClient show ?thesis
      by (simp add: query_all_def es_execute_def returned_records_def strftime_def)
  next
    case (Some ds)
    have "set (take page (filter (\<lambda>p. published_in_range lt_date gt_date p \<and> stanford p = Some 1)
              (map snd (filter (\<lambda>d. fst d = ''news'') ds))))
          \<subseteq> {p. published_in_range lt_date gt_date p}"
      using set_take_subset [of page "filter (\<lambda>p. published_in_range lt_date gt_date p \<and> stanford p = Some 1)
              (map snd (filter (\<lambda>d. fst d = ''news'') ds))"]
      by auto
    with ElasticClient Some show ?thesis
      by (simp add: query_all_def es_execute_def returned_records_def strftime_def Let_def)
  qed
qed

text \<open>
  What holds at the bounds. A record stored exactly at \<^verbatim>\<open>gt_date\<close> is never among
  the records the MongoDB branch returns; records stored at either bound leave no
  trace in the text, which is rendered from the \<^verbatim>\<open>$lt\<close> query; and the
  Elasticsearch branch returns no record published exactly at either bound.
\<close>

lemma boundary_exclusions:
  "(date_added p = Some gt_date \<longrightarrow>
      p \<notin> set (returned_records
                (query_all seg (MongoCollection docs) lt_date gt_date sources False ix write_file)))
   \<and> returned_text (query_all seg (MongoCollection docs) lt_date gt_date sources False ix True) =
       returned_text
         (query_all seg
            (MongoCollection (filter (\<lambda>q. date_added q \<noteq> Some lt_date \<and> date_added q \<noteq> Some gt_date) docs))
            lt_date gt_date sources False ix True)
   \<and> (published_date p = Some lt_date \<or> published_date p = Some gt_date \<longrightarrow>
      p \<notin> set (returned_records (query_all seg conn lt_date gt_date sources True ix write_file)))"
proof -
  have lower: "p \<notin> set (returned_records
                (query_all seg (MongoCollection docs) lt_date gt_date sources False ix write_file))"
    if "date_added p = Some gt_date"
    using that by (simp add: returned_records_mongo query_lte_def date_added_gt_def)
  have same: "filter (query_lt lt_date gt_date sources)
        (filter (\<lambda>q. date_added q \<noteq> Some lt_date \<and> date_added q \<noteq> Some gt_date) docs) =
      filter (query_lt lt_date gt_date sources) docs"
    by (auto simp: query_lt_def date_added_lt_def date_added_gt_def intro!: filter_cong
        split: option.splits)
  have text_eq: "returned_text (query_all seg (MongoCollection docs) lt_date gt_date sources False ix True) =
       returned_text
         (query_all seg
            (MongoCollection (filter (\<lambda>q. date_added q \<noteq> Some lt_date \<and> date_added q \<noteq> Some gt_date) docs))
            lt_date gt_date sources False ix True)"
    unfolding query_all_mongo returned_text_def same by simp
  have es: "p \<notin> set (returned_records (query_all seg conn lt_date gt_date sources True ix write_file))"
    if "published_date p = Some lt_date \<or> published_date p = Some gt_date"
  proof -
    from that have "\<not> published_in_range lt_date gt_date p"
      by (auto simp: published_in_range_def)
    then show ?thesis
      using returned_records_es [of seg conn lt_date gt_date sources ix write_file] by auto
  qed
  from lower text_eq es show ?thesis by blast
qed

text \<open>
  C2. One record stored exactly at \<^verbatim>\<open>lt_date\<close> (midnight of 2024-01-02, the lower
  bound being midnight of 2023-12-31), with the text requested: the \<^verbatim>\<open>$lt\<close> query
  for the text does not find it and the text is empty, the Elasticsearch branch does not
  return the same document published at that instant, yet the MongoDB branch returns
  it and counts it, through the \<^verbatim>\<open>$lte\<close> query of lines 80 to 82.
\<close>

theorem upper_bound_record_returned:
  "date_added (reuters_post 63839750400000000) = Some 63839750400000000
   \<and> filter (query_lt 63839750400000000 63839577600000000 [''reuters''])
        [reuters_post 63839750400000000] = []
   \<and> returned_records (query_all simple_segmenter
        (ElasticClient 10 [(''idx'', [(''news'', es_post 63839750400000000)])])
        63839750400000000 63839577600000000 [''reuters''] True ''idx'' False) = []
   \<and> query_all simple_segmenter (MongoCollection [reuters_post 63839750400000000])
        63839750400000000 63839577600000000 [''reuters''] False ''idx'' True =
       (Inr ([reuters_post 63839750400000000], []),
        [Print ''Total number of stories: 1'', LogInfo ''Total number of stories: 1''])
   \<and> query_all simple_segmenter (MongoCollection [reuters_post 63839750400000000])
        63839750400000000 63839577600000000 [''reuters''] False ''idx'' False =
       (Inr ([reuters_post 63839750400000000], []),
        [Print ''Total number of stories: 1'', LogInfo ''Total number of stories: 1''])"
  by (simp add: model_defs es_post_def)

section \<open>The Elasticsearch branch\<close>

text \<open>
  C1, as the source has it. With \<^verbatim>\<open>elasticsearch\<close> set, \<^verbatim>\<open>write_file\<close> is not
  read: the call behaves as without it. When the bounds can be formatted and the index
  exists, it returns the first page of hits with an empty text; whenever it returns,
  the text is empty; and no exception it raises is an
  \<^verbatim>\<open>UnsupportedCombinationError\<close>.
\<close>

theorem search_index_ignores_write_file:
  "query_all seg conn lt_date gt_date sources True ix True =
     query_all seg conn lt_date gt_date sources True ix False
   \<and> (693595 * us_per_day \<le> lt_date \<and> 693595 * us_per_day \<le> gt_date \<and> map_of ixs ix = Some ds \<longrightarrow>
        query_all seg (ElasticClient page ixs) lt_date gt_date sources True ix True =
          (Inr (take page (filter (\<lambda>p. published_in_range lt_date gt_date p \<and> stanford p = Some 1)
                             (map snd (filter (\<lambda>d. fst d = ''news'') ds))), []),
           total_events (length (filter (\<lambda>p. published_in_range lt_date gt_date p \<and> stanford p = Some 1)
                                   (map snd (filter (\<lambda>d. fst d = ''news'') ds))))))
   \<and> (\<forall>posts out. fst (query_all seg conn lt_date gt_date sources True ix True) = Inr (posts, out)
         \<longrightarrow> out = [])
   \<and> (\<forall>e. fst (query_all seg conn lt_date gt_date sources True ix True) = Inl e
         \<longrightarrow> kind e \<noteq> ''UnsupportedCombinationError'')"
proof -
  have same: "query_all seg conn lt_date gt_date sources True ix True =
     query_all seg conn lt_date gt_date sources True ix False"
    by (simp add: query_all_def)
  have returns: "query_all seg (ElasticClient page ixs) lt_date gt_date sources True ix True =
          (Inr (take page (filter (\<lambda>p. published_in_range lt_date gt_date p \<and> stanford p = Some 1)
                             (map snd (filter (\<lambda>d. fst d = ''news'') ds))), []),
           total_events (length (filter (\<lambda>p. published_in_range lt_date gt_date p \<and> stanford p = Some 1)
                                   (map snd (filter (\<lambda>d. fst d = ''news'') ds)))))"
    if "693595 * us_per_day \<le> lt_date \<and> 693595 * us_per_day \<le> gt_date \<and> map_of ixs ix = Some ds"
    using that by (simp add: query_all_def strftime_def es_execute_def Let_def)
  have empty: "out = []"
    if "fst (query_all seg conn lt_date gt_date sources True ix True) = Inr (posts, out)" for posts out
    using that
    by (auto simp: query_all_def strftime_def es_execute_def Let_def
        split: if_splits sum.splits connection.splits option.splits)
  have errors: "kind e \<noteq> ''UnsupportedCombinationError''"
    if "fst (query_all seg conn lt_date gt_date sources True ix True) = Inl e" for e
    using that
    by (auto simp: query_all_def strftime_def es_execute_def Let_def
        split: if_splits sum.splits connection.splits option.splits)
  from same returns empty errors show ?thesis by blast
qed

text \<open>One indexed document inside the window; and bounds before the year 1900.\<close>

theorem search_index_ignores_write_file_witness:
  "query_all simple_segmenter (ElasticClient 10 [(''idx'', [(''news'', es_post 60000000000000001)])])
       60000000000000002 60000000000000000 [''reuters''] True ''idx'' True =
     (Inr ([es_post 60000000000000001], []),
      [Print ''Total number of stories: 1'', LogInfo ''Total number of stories: 1''])
   \<and> kind (Error ''ValueError'' ''the datetime strftime() methods require year >= 1900'')
       \<noteq> ''UnsupportedCombinationError''"
proof -
  let ?ixs = "[(''idx'', [(''news'', es_post 60000000000000001)])]"
  note t = search_index_ignores_write_file [where seg = simple_segmenter and page = 10 and ixs = ?ixs
      and ix = "''idx''" and lt_date = 60000000000000002 and gt_date = 60000000000000000
      and sources = "[''reuters'']" and ds = "[(''news'', es_post 60000000000000001)]"]
  have h: "693595 * us_per_day \<le> 60000000000000002 \<and> 693595 * us_per_day \<le> 60000000000000000
      \<and> map_of ?ixs ''idx'' = Some [(''news'', es_post 60000000000000001)]"
    by (simp add: us_per_day_def)
  from t [where conn = "ElasticClient 10 ?ixs"] h
  have "query_all simple_segmenter (ElasticClient 10 ?ixs) 60000000000000002 60000000000000000
          [''reuters''] True ''idx'' True =
        (Inr (take 10 (filter (\<lambda>p. published_in_range 60000000000000002 60000000000000000 p
                                      \<and> stanford p = Some 1)
                         (map snd (filter (\<lambda>d. fst d = ''news'') [(''news'', es_post 60000000000000001)]))), []),
         total_events (length (filter (\<lambda>p. published_in_range 60000000000000002 60000000000000000 p
                                      \<and> stanford p = Some 1)
                         (map snd (filter (\<lambda>d. fst d = ''news'') [(''news'', es_post 60000000000000001)])))))"
    by blast
  then have 1: "query_all simple_segmenter (ElasticClient 10 ?ixs) 60000000000000002 60000000000000000
          [''reuters''] True ''idx'' True =
     (Inr ([es_post 60000000000000001], []),
      [Print ''Total number of stories: 1'', LogInfo ''Total number of stories: 1''])"
    by (simp add: published_in_range_def es_post_def reuters_post_def total_events_def digit_char_def)
  have e: "fst (query_all simple_segmenter (ElasticClient 10 ?ixs) 5 4 [''reuters''] True ''idx'' True) =
      Inl (Error ''ValueError'' ''the datetime strftime() methods require year >= 1900'')"
    by (simp add: query_all_def strftime_def us_per_day_def)
  from search_index_ignores_write_file [where seg = simple_segmenter and conn = "ElasticClient 10 ?ixs"
      and lt_date = 5 and gt_date = 4 and sources = "[''reuters'']" and ix = "''idx''"] e
  have 2: "kind (Error ''ValueError'' ''the datetime strftime() methods require year >= 1900'')
       \<noteq> ''UnsupportedCombinationError''"
    by blast
  from 1 2 show ?thesis by blast
qed

text \<open>
  C1 as stated fails: with the search index selected and the text requested, the call
  returns normally, with an empty text.
\<close>

theorem search_index_with_text_returns_counterexample:
  "query_all simple_segmenter (ElasticClient 10 [(''idx'', [(''news'', es_post 60000000000000001)])])
       60000000000000002 60000000000000000 [''reuters''] True ''idx'' True =
     (Inr ([es_post 60000000000000001], []),
      [Print ''Total number of stories: 1'', LogInfo ''Total number of stories: 1''])"
  by (simp add: model_defs es_post_def)

text \<open>
  C3. Eleven indexed documents match and the page holds ten hits: the total printed
  and logged is 11, and the returned collection has 10 records.
\<close>

theorem search_index_total_exceeds_hits:
  "query_all simple_segmenter
       (ElasticClient 10 [(''idx'', replicate 11 (''news'', es_post 60000000000000001))])
       60000000000000002 60000000000000000 [''reuters''] True ''idx'' False =
     (Inr (replicate 10 (es_post 60000000000000001), []),
      [Print ''Total number of stories: 11'', LogInfo ''Total number of stories: 11''])"
  by code_simp

text \<open>In the MongoDB branch the total is the length of the returned list.\<close>

lemma document_store_total_is_length:
  "query_all seg (MongoCollection docs) lt_date gt_date sources False ix write_file = (Inr (posts, out), evs)
   \<Longrightarrow> \<exists>evs'. evs = evs' @ total_events (length posts)"
  by (auto simp: query_all_mongo)

section \<open>The day-oriented entry point\<close>

text \<open>Day numbers of the dates that \<^verbatim>\<open>datetime\<close> can hold, but the first and the last.\<close>

lemma month_cases:
  assumes "1 \<le> m" "m \<le> (12::nat)"
  shows "m = 1 \<or> m = 2 \<or> m = 3 \<or> m = 4 \<or> m = 5 \<or> m = 6 \<or> m = 7 \<or> m = 8 \<or> m = 9 \<or> m = 10
      \<or> m = 11 \<or> m = 12"
  using assms by arith

lemma days_before_month_le:
  assumes "1 \<le> m" "m \<le> 12" "d \<le> days_in_month y m"
  shows "days_before_month y m + d \<le> 365 + (if is_leap y then 1 else 0)"
  using month_cases [OF assms(1,2)] assms(3)
  by (elim disjE) (auto simp: days_before_month_def days_in_month_def split: if_splits)

lemma days_before_month_lt:
  assumes "1 \<le> m" "m \<le> 12" "d \<le> days_in_month y m" "\<not> (m = 12 \<and> d = 31)"
  shows "days_before_month y m + d \<le> 364 + (if is_leap y then 1 else 0)"
  using month_cases [OF assms(1,2)] assms(3,4)
  by (elim disjE) (auto simp: days_before_month_def days_in_month_def split: if_splits)

lemma days_before_year_upper:
  assumes "y \<le> 9998"
  shows "days_before_year y \<le> 3651428"
proof -
  define a where "a = (y - 1) div 4"
  define b where "b = (y - 1) div 100"
  define c where "c = (y - 1) div 400"
  have "y - 1 \<le> 9997" using assms by simp
  then have "a \<le> 9997 div 4" "c \<le> 9997 div 400" "(y - 1) * 365 \<le> 9997 * 365"
    unfolding a_def c_def by (simp_all add: div_le_mono)
  then have "(y - 1) * 365 + a - b + c \<le> 3651428" by simp
  moreover have "days_before_year y = (y - 1) * 365 + a - b + c"
    unfolding days_before_year_def a_def b_def c_def by (rule refl)
  ultimately show ?thesis by (simp only:)
qed

lemma days_before_year_lower:
  assumes "2 \<le> y"
  shows "365 \<le> days_before_year y"
proof -
  define a where "a = (y - 1) div 4"
  define b where "b = (y - 1) div 100"
  define c where "c = (y - 1) div 400"
  have "b \<le> a" unfolding a_def b_def by (rule div_le_mono2) simp_all
  moreover have "365 \<le> (y - 1) * 365" using assms by simp
  ultimately have "365 \<le> (y - 1) * 365 + a - b + c" by simp
  moreover have "days_before_year y = (y - 1) * 365 + a - b + c"
    unfolding days_before_year_def a_def b_def c_def by (rule refl)
  ultimately show ?thesis by (simp only:)
qed

lemma days_before_year_9999: "days_before_year 9999 = 3651694" "\<not> is_leap 9999"
  by (simp_all add: days_before_year_def is_leap_def)

lemma ymd2ord_upper:
  assumes "y \<le> 9999" "1 \<le> m" "m \<le> 12" "d \<le> days_in_month y m"
    and "\<not> (y = 9999 \<and> m = 12 \<and> d = 31)"
  shows "ymd2ord y m d \<le> 3652058"
proof (cases "y = 9999")
  case True
  with assms(5) have "\<not> (m = 12 \<and> d = 31)" by simp
  from days_before_month_lt [OF assms(2,3,4) this] True show ?thesis
    by (simp add: ymd2ord_def days_before_year_9999)
next
  case False
  with assms(1) have "y \<le> 9998" by simp
  from days_before_year_upper [OF this] days_before_month_le [OF assms(2,3,4)]
  show ?thesis by (simp add: ymd2ord_def split: if_splits)
qed

lemma ymd2ord_lower:
  assumes "1 \<le> y" "1 \<le> m" "m \<le> 12" "1 \<le> d" and "\<not> (y = 1 \<and> m = 1 \<and> d = 1)"
  shows "2 \<le> ymd2ord y m d"
proof (cases "2 \<le> y")
  case True
  from days_before_year_lower [OF this] show ?thesis by (simp add: ymd2ord_def)
next
  case False
  with assms(1) have y: "y = 1" by simp
  show ?thesis
  proof (cases "m = 1")
    case True
    with y assms(4,5) show ?thesis by (simp add: ymd2ord_def)
  next
    case False
    with month_cases [OF assms(2,3)] assms(4) show ?thesis
      by (elim disjE) (simp_all add: ymd2ord_def days_before_month_def)
  qed
qed


lemma window_of_date:
  assumes "1 \<le> year d" "year d \<le> 9999" "1 \<le> month d" "month d \<le> 12"
    "1 \<le> day d" "day d \<le> days_in_month (year d) (month d)"
    and first: "\<not> (year d = 1 \<and> month d = 1 \<and> day d = 1)"
    and last: "\<not> (year d = 9999 \<and> month d = 12 \<and> day d = 31)"
  shows "window d = Inr (midnight d + us_per_day, midnight d - us_per_day)"
proof -
  have new: "datetime_new (year d) (month d) (day d) = Inr (midnight d)"
    using assms(1-6) by (simp add: datetime_new_def midnight_def)
  have lo: "2 \<le> ymd2ord (year d) (month d) (day d)"
    by (rule ymd2ord_lower [OF assms(1,3,4,5) first])
  have hi: "ymd2ord (year d) (month d) (day d) \<le> 3652058"
    by (rule ymd2ord_upper [OF assms(2,3,4,6) last])
  have sub: "add_days (midnight d) (- 1) = Inr (midnight d - us_per_day)"
    using lo hi by (simp add: add_days_def midnight_def us_per_day_def Let_def)
  have add: "add_days (midnight d) 1 = Inr (midnight d + us_per_day)"
    using lo hi by (simp add: add_days_def midnight_def us_per_day_def Let_def)
  show ?thesis
    by (simp add: window_def new sub add bind_err_simps)
qed

lemma write_results_file:
  assumes "write_results d stem results txt evs = (r, evs @ [WriteFile f t])"
  shows "\<exists>s. stem = Some s \<and> f = payload s @ pad2 (year d) @ pad2 (month d) @ pad2 (day d) @ ''.txt''
           \<and> t = txt \<and> r = Inr (results, f)"
proof -
  from assms have nonempty: "txt \<noteq> []" and stem: "truthy stem"
    by (auto simp: write_results_def split: if_splits sum.splits)
  from stem obtain s where s: "stem = Some s" by (cases stem) (auto simp: truthy_def)
  from assms nonempty stem obtain decoded where dec: "unicode_decode txt = Inr decoded"
    by (cases "unicode_decode txt") (auto simp: write_results_def)
  then have decoded: "decoded = txt"
    by (auto simp: unicode_decode_def split: option.splits)
  from assms nonempty stem dec obtain fn where fn: "format_filename stem d = Inr fn"
    by (cases "format_filename stem d") (auto simp: write_results_def)
  have name: "fn = payload s @ pad2 (year d) @ pad2 (month d) @ pad2 (day d) @ ''.txt''"
    using fn s
    by (cases s) (auto simp: format_filename_def to_unicode_def ascii_decode_def bind_err_def
        split: option.splits sum.splits)
  from assms nonempty stem dec fn have "r = Inr (results, fn)" "f = fn" "t = decoded"
    by (auto simp: write_results_def)
  with s name decoded show ?thesis by simp
qed

text \<open>
  C9, as the source has it. For every calendar date \<open>d\<close> from 0001-01-02 to
  9999-12-30, the bounds computed by \<^verbatim>\<open>main\<close> are midnight of \<open>d\<close> plus one day
  (the upper bound) and midnight of \<open>d\<close> minus one day (the exclusive lower bound),
  and \<^verbatim>\<open>main\<close> calls \<^verbatim>\<open>query_all\<close> with them. Whenever a file is written, a
  stem was supplied, the file's name is the stem followed by the year, the month and
  the day, each padded with a zero to at least two digits, and \<^verbatim>\<open>.txt\<close>; its
  content is the text, and that name is returned.
\<close>

theorem day_window_and_filename:
  assumes "1 \<le> year d" "year d \<le> 9999" "1 \<le> month d" "month d \<le> 12"
    "1 \<le> day d" "day d \<le> days_in_month (year d) (month d)"
    and first: "\<not> (year d = 1 \<and> month d = 1 \<and> day d = 1)"
    and last: "\<not> (year d = 9999 \<and> month d = 12 \<and> day d = 31)"
  shows "window d = Inr (midnight d + us_per_day, midnight d - us_per_day)
     \<and> (get_sources (files w) ''source_keys.txt'' = Inr sources
          \<and> (if elasticsearch fd then Inr (es_client w)
              else make_conn w (auth_db fd) (auth_user fd) (auth_pass fd) (db_host fd)) = Inr conn
        \<longrightarrow> main w d fd write_file stem =
             (case query_all (sentence_segmenter w) conn (midnight d + us_per_day) (midnight d - us_per_day)
                     sources (elasticsearch fd) (index fd) write_file of
                (Inl e, evs) \<Rightarrow> (Inl e, evs)
              | (Inr (results, txt), evs) \<Rightarrow> write_results d stem results txt evs))
     \<and> (\<forall>results txt evs r f t.
          write_results d stem results txt evs = (r, evs @ [WriteFile f t])
        \<longrightarrow> (\<exists>s. stem = Some s
               \<and> f = payload s @ pad2 (year d) @ pad2 (month d) @ pad2 (day d) @ ''.txt''
               \<and> t = txt \<and> r = Inr (results, f)))"
proof -
  have win: "window d = Inr (midnight d + us_per_day, midnight d - us_per_day)"
    by (rule window_of_date [OF assms])
  have call: "main w d fd write_file stem =
             (case query_all (sentence_segmenter w) conn (midnight d + us_per_day) (midnight d - us_per_day)
                     sources (elasticsearch fd) (index fd) write_file of
                (Inl e, evs) \<Rightarrow> (Inl e, evs)
              | (Inr (results, txt), evs) \<Rightarrow> write_results d stem results txt evs)"
    if "get_sources (files w) ''source_keys.txt'' = Inr sources
          \<and> (if elasticsearch fd then Inr (es_client w)
              else make_conn w (auth_db fd) (auth_user fd) (auth_pass fd) (db_host fd)) = Inr conn"
    using that by (simp add: main_def win)
  from win call write_results_file show ?thesis by blast
qed


text \<open>The first of January 2024 with the stem \<^verbatim>\<open>stem\<close>.\<close>

theorem day_window_and_filename_witness:
  "window \<lparr>year = 2024, month = 1, day = 1\<rparr> = Inr (63839750400000000, 63839577600000000)
   \<and> main (example_env [reuters_post 63839664000000000]) \<lparr>year = 2024, month = 1, day = 1\<rparr>
         mongo_details True (Some (Unicode ''stem'')) =
       (Inr ([reuters_post 63839664000000000], ''stem20240101.txt''),
        [Print ''Total number of stories: 1'', LogInfo ''Total number of stories: 1'',
         WriteFile ''stem20240101.txt''
           (CHR ''0'' # TAB # ''2024-01-01'' @ TAB # ''u1'' @ NL
              # ''Sentence one.  Sentence two.  Sentence three.  Sentence four.'' @ [NL])])"
proof -
  let ?d = "\<lparr>year = 2024, month = 1, day = 1\<rparr>"
  let ?w = "example_env [reuters_post 63839664000000000]"
  have valid: "1 \<le> year ?d" "year ?d \<le> 9999" "1 \<le> month ?d" "month ?d \<le> 12" "1 \<le> day ?d"
    "day ?d \<le> days_in_month (year ?d) (month ?d)"
    "\<not> (year ?d = 1 \<and> month ?d = 1 \<and> day ?d = 1)"
    "\<not> (year ?d = 9999 \<and> month ?d = 12 \<and> day ?d = 31)"
    by (simp_all add: days_in_month_def)
  have mid: "midnight ?d = 63839664000000000"
    by (simp add: midnight_def ymd2ord_def days_before_year_def days_before_month_def us_per_day_def)
  have pre: "get_sources (files ?w) ''source_keys.txt'' = Inr [''reuters'']
      \<and> (if elasticsearch mongo_details then Inr (es_client ?w)
          else make_conn ?w (auth_db mongo_details) (auth_user mongo_details) (auth_pass mongo_details)
                 (db_host mongo_details)) = Inr (MongoCollection [reuters_post 63839664000000000])"
    by (simp add: example_env_def mongo_details_def get_sources_def str_replace_def to_unicode_def
        ascii_decode_def py_replace_def replace_from.simps bind_err_simps)
  note t = day_window_and_filename [OF valid, where w = ?w and fd = mongo_details
      and sources = "[''reuters'']" and conn = "MongoCollection [reuters_post 63839664000000000]"
      and write_file = True and stem = "Some (Unicode ''stem'')"]
  from t have "window ?d = Inr (midnight ?d + us_per_day, midnight ?d - us_per_day)"
    by blast
  then have 1: "window ?d = Inr (63839750400000000, 63839577600000000)"
    unfolding mid us_per_day_def by simp
  from t pre have "main ?w ?d mongo_details True (Some (Unicode ''stem'')) =
      (case query_all (sentence_segmenter ?w) (MongoCollection [reuters_post 63839664000000000])
              (midnight ?d + us_per_day) (midnight ?d - us_per_day) [''reuters'']
              (elasticsearch mongo_details) (index mongo_details) True of
         (Inl e, evs) \<Rightarrow> (Inl e, evs)
       | (Inr (results, txt), evs) \<Rightarrow> write_results ?d (Some (Unicode ''stem'')) results txt evs)"
    by blast
  then have 2: "main ?w ?d mongo_details True (Some (Unicode ''stem'')) =
       (Inr ([reuters_post 63839664000000000], ''stem20240101.txt''),
        [Print ''Total number of stories: 1'', LogInfo ''Total number of stories: 1'',
         WriteFile ''stem20240101.txt''
           (CHR ''0'' # TAB # ''2024-01-01'' @ TAB # ''u1'' @ NL
              # ''Sentence one.  Sentence two.  Sentence three.  Sentence four.'' @ [NL])])"
    unfolding mid
    by (simp add: model_defs example_env_def mongo_details_def write_results_def unicode_decode_def
        truthy_def format_filename_def)
  from 1 2 show ?thesis by blast
qed

text \<open>
  C9 as stated fails for the first and the last date of the calendar, where the
  \<^verbatim>\<open>timedelta\<close> arithmetic raises \<^verbatim>\<open>OverflowError\<close> before any query is made;
  and a year below ten is written with two digits, neither as the plain year nor as
  four digits.
\<close>

theorem first_day_and_short_year_counterexample:
  "main (example_env []) \<lparr>year = 1, month = 1, day = 1\<rparr> mongo_details True (Some (Unicode ''stem'')) =
     (Inl (Error ''OverflowError'' ''date value out of range''), [])
   \<and> main (example_env []) \<lparr>year = 9999, month = 12, day = 31\<rparr> mongo_details True (Some (Unicode ''stem'')) =
     (Inl (Error ''OverflowError'' ''date value out of range''), [])
   \<and> format_filename (Some (Unicode ''stem'')) \<lparr>year = 5, month = 3, day = 7\<rparr> = Inr ''stem050307.txt''"
  by (simp add: main_def example_env_def mongo_details_def get_sources_def str_replace_def to_unicode_def
      ascii_decode_def py_replace_def replace_from.simps bind_err_simps window_def datetime_new_def
      days_in_month_def ymd2ord_def days_before_year_def days_before_month_def is_leap_def add_days_def
      us_per_day_def format_filename_def pad2_def digit_char_def)

text \<open>\<^verbatim>\<open>query_all\<close> prints and logs; it writes no file.\<close>

lemma query_all_writes_nothing:
  "WriteFile f t \<notin> set (snd (query_all seg conn lt_date gt_date sources es ix write_file))"
proof (cases es)
  case True
  then show ?thesis
    by (auto simp: query_all_def total_events_def split: sum.splits)
next
  case False
  show ?thesis
  proof (cases conn)
    case (MongoCollection docs)
    have "WriteFile f t \<notin> set (snd (render_loop seg 0 ps ([], [])))" for ps
      by (auto simp: render_loop_eq split: sum.splits)
    with False MongoCollection show ?thesis
      by (simp add: query_all_mongo total_events_def)
  next
    case (ElasticClient page ixs)
    with False show ?thesis by (simp add: query_all_def mongo_find_def)
  qed
qed

text \<open>
  C6, as the source has it. When \<^verbatim>\<open>query_all\<close> has returned a non-empty ASCII text
  and no stem is supplied (none, or an empty one), \<^verbatim>\<open>main\<close> prints the diagnostic
  after what the query printed, writes no file, and returns the queried records with
  an empty filename. The rendered text is not part of what \<^verbatim>\<open>main\<close> returns.
\<close>

theorem missing_stem_returns_records:
  assumes src: "get_sources (files w) ''source_keys.txt'' = Inr sources"
    and conn: "(if elasticsearch fd then Inr (es_client w)
                else make_conn w (auth_db fd) (auth_user fd) (auth_pass fd) (db_host fd)) = Inr conn"
    and win: "window d = Inr (lt_date, gt_date)"
    and query: "query_all (sentence_segmenter w) conn lt_date gt_date sources (elasticsearch fd) (index fd)
                  write_file = (Inr (results, txt), evs)"
    and ascii: "txt \<noteq> []" "find_non_ascii 0 txt = None"
    and stem: "\<not> truthy stem"
  shows "main w d fd write_file stem =
           (Inr (results, []), evs @ [Print ''Need filestem to write results to file.''])
       \<and> (\<forall>f t. WriteFile f t \<notin> set (snd (main w d fd write_file stem)))"
proof -
  have m: "main w d fd write_file stem =
           (Inr (results, []), evs @ [Print ''Need filestem to write results to file.''])"
    using assms by (simp add: main_def write_results_def unicode_decode_def)
  have "WriteFile f t \<notin> set evs" for f t
    using query_all_writes_nothing
      [of f t "sentence_segmenter w" conn lt_date gt_date sources "elasticsearch fd" "index fd" write_file]
    by (simp add: query)
  with m show ?thesis by simp
qed

text \<open>The scenario's record on the first of January 2024, without a stem.\<close>

theorem missing_stem_returns_records_witness:
  "main (example_env [reuters_post 63839664000000000]) \<lparr>year = 2024, month = 1, day = 1\<rparr>
       mongo_details True None =
     (Inr ([reuters_post 63839664000000000], []),
      [Print ''Total number of stories: 1'', LogInfo ''Total number of stories: 1'',
       Print ''Need filestem to write results to file.''])"
proof -
  let ?d = "\<lparr>year = 2024, month = 1, day = 1\<rparr>"
  let ?w = "example_env [reuters_post 63839664000000000]"
  let ?txt = "CHR ''0'' # TAB # ''2024-01-01'' @ TAB # ''u1'' @ NL
              # ''Sentence one.  Sentence two.  Sentence three.  Sentence four.'' @ [NL]"
  have src: "get_sources (files ?w) ''source_keys.txt'' = Inr [''reuters'']"
    by (simp add: example_env_def get_sources_def str_replace_def to_unicode_def
        ascii_decode_def py_replace_def replace_from.simps bind_err_simps)
  have conn: "(if elasticsearch mongo_details then Inr (es_client ?w)
          else make_conn ?w (auth_db mongo_details) (auth_user mongo_details) (auth_pass mongo_details)
                 (db_host mongo_details)) = Inr (MongoCollection [reuters_post 63839664000000000])"
    by (simp add: example_env_def mongo_details_def)
  have win: "window ?d = Inr (63839750400000000, 63839577600000000)"
    by (simp add: window_def datetime_new_def days_in_month_def ymd2ord_def days_before_year_def
        days_before_month_def is_leap_def add_days_def us_per_day_def bind_err_simps)
  have query: "query_all (sentence_segmenter ?w) (MongoCollection [reuters_post 63839664000000000])
      63839750400000000 63839577600000000 [''reuters''] (elasticsearch mongo_details) (index mongo_details) True
      = (Inr ([reuters_post 63839664000000000], ?txt),
         [Print ''Total number of stories: 1'', LogInfo ''Total number of stories: 1''])"
    by (simp add: model_defs example_env_def mongo_details_def)
  have ascii: "?txt \<noteq> []" "find_non_ascii 0 ?txt = None" by simp_all
  have stem: "\<not> truthy None" by (simp add: truthy_def)
  from missing_stem_returns_records [OF src conn win query ascii stem] show ?thesis by simp
qed

text \<open>
  C6 as stated fails where it says that the caller still receives the rendered text:
  \<^verbatim>\<open>query_all\<close> hands a text of one block to \<^verbatim>\<open>main\<close>, and \<^verbatim>\<open>main\<close>
  returns the records and the empty filename only.
\<close>

theorem missing_stem_text_not_returned_counterexample:
  "query_all simple_segmenter (MongoCollection [reuters_post 63839664000000000])
       63839750400000000 63839577600000000 [''reuters''] False ''idx'' True =
     (Inr ([reuters_post 63839664000000000],
           CHR ''0'' # TAB # ''2024-01-01'' @ TAB # ''u1'' @ NL
             # ''Sentence one.  Sentence two.  Sentence three.  Sentence four.'' @ [NL]),
      [Print ''Total number of stories: 1'', LogInfo ''Total number of stories: 1''])
   \<and> main (example_env [reuters_post 63839664000000000]) \<lparr>year = 2024, month = 1, day = 1\<rparr>
         mongo_details True None =
       (Inr ([reuters_post 63839664000000000], []),
        [Print ''Total number of stories: 1'', LogInfo ''Total number of stories: 1'',
         Print ''Need filestem to write results to file.''])"
  by (simp add: model_defs main_def example_env_def mongo_details_def get_sources_def replace_from.simps
      window_def datetime_new_def days_in_month_def ymd2ord_def days_before_year_def
      days_before_month_def is_leap_def add_days_def write_results_def unicode_decode_def truthy_def)

section \<open>Failures and indices in the rendered text\<close>

lemma printed_append: "printed (xs @ ys) = printed xs @ printed ys"
  by (induction xs rule: printed.induct) simp_all

lemma logged_append: "logged (xs @ ys) = logged xs @ logged ys"
  by (induction xs rule: logged.induct) simp_all

lemma logged_failures:
  "logged (concat (map (\<lambda>(k, p). case render_post seg k p of Inr s \<Rightarrow> []
       | Inl e \<Rightarrow> [Print (''Error on entry '' @ decimal k @ '': '' @ message e @ ''.'')]) xs)) = []"
  by (induction xs) (auto simp: logged_append split: sum.splits)

text \<open>
  C5, as the source has it. In the MongoDB branch with the text requested,
  \<^verbatim>\<open>query_all\<close> always returns: whatever a record raises is caught. The text is made
  of the blocks of the records that render, in order. Each record that fails is left
  out and has one line printed to standard output,
  \<^verbatim>\<open>Error on entry \<close>\<open>k\<close>\<^verbatim>\<open>: \<close>\<open>message\<close>\<^verbatim>\<open>.\<close>, with its position \<open>k\<close> (which reads
  back as \<open>k\<close>) and the message of its error; nothing about it goes to the logger,
  whose only line is the total. When every record fails the text is empty.
\<close>

theorem record_failures_are_caught:
  "query_all seg (MongoCollection docs) lt_date gt_date sources False ix True =
     (Inr (filter (query_lte lt_date gt_date sources) docs,
           join_strings [NL]
             (concat (map (\<lambda>(k, p). case render_post seg k p of Inr s \<Rightarrow> [s] | Inl e \<Rightarrow> [])
                (enumerate 0 (filter (query_lt lt_date gt_date sources) docs))))),
      concat (map (\<lambda>(k, p). case render_post seg k p of Inr s \<Rightarrow> []
                     | Inl e \<Rightarrow> [Print (''Error on entry '' @ decimal k @ '': '' @ message e @ ''.'')])
                (enumerate 0 (filter (query_lt lt_date gt_date sources) docs)))
      @ [Print (''Total number of stories: ''
                  @ decimal (length (filter (query_lte lt_date gt_date sources) docs))),
         LogInfo (''Total number of stories: ''
                  @ decimal (length (filter (query_lte lt_date gt_date sources) docs)))])
   \<and> logged (snd (query_all seg (MongoCollection docs) lt_date gt_date sources False ix True)) =
       [''Total number of stories: '' @ decimal (length (filter (query_lte lt_date gt_date sources) docs))]
   \<and> (\<forall>k. read_decimal (decimal k) = k)
   \<and> ((\<forall>k p. (k, p) \<in> set (enumerate 0 (filter (query_lt lt_date gt_date sources) docs))
              \<longrightarrow> isl (render_post seg k p))
        \<longrightarrow> returned_text (query_all seg (MongoCollection docs) lt_date gt_date sources False ix True) = [])"
proof -
  let ?posts = "filter (query_lt lt_date gt_date sources) docs"
  let ?n = "length (filter (query_lte lt_date gt_date sources) docs)"
  let ?blocks = "concat (map (\<lambda>(k, p). case render_post seg k p of Inr s \<Rightarrow> [s] | Inl e \<Rightarrow> [])
                   (enumerate 0 ?posts))"
  let ?fails = "concat (map (\<lambda>(k, p). case render_post seg k p of Inr s \<Rightarrow> []
                     | Inl e \<Rightarrow> [Print (''Error on entry '' @ decimal k @ '': '' @ message e @ ''.'')])
                   (enumerate 0 ?posts))"
  have loop: "render_loop seg 0 ?posts ([], []) = (?blocks, ?fails)"
    using render_loop_eq [of seg 0 ?posts "[]" "[]", unfolded error_line_def] by simp
  have first: "query_all seg (MongoCollection docs) lt_date gt_date sources False ix True =
     (Inr (filter (query_lte lt_date gt_date sources) docs, join_strings [NL] ?blocks),
      ?fails @ [Print (''Total number of stories: '' @ decimal ?n),
                LogInfo (''Total number of stories: '' @ decimal ?n)])"
    by (simp add: query_all_mongo loop total_events_def)
  have log: "logged (snd (query_all seg (MongoCollection docs) lt_date gt_date sources False ix True)) =
       [''Total number of stories: '' @ decimal ?n]"
    unfolding first by (simp add: logged_append logged_failures)
  have second: "returned_text (query_all seg (MongoCollection docs) lt_date gt_date sources False ix True) = []"
    if fails: "\<forall>k p. (k, p) \<in> set (enumerate 0 ?posts) \<longrightarrow> isl (render_post seg k p)"
  proof -
    have "\<And>x. x \<in> set (enumerate 0 ?posts) \<Longrightarrow>
              (case x of (k, p) \<Rightarrow> case render_post seg k p of Inr s \<Rightarrow> [s] | Inl e \<Rightarrow> []) = []"
    proof -
      fix x assume x: "x \<in> set (enumerate 0 ?posts)"
      obtain k p where kp: "x = (k, p)" by (cases x)
      with x fails have "isl (render_post seg k p)" by blast
      then show "(case x of (k, p) \<Rightarrow> case render_post seg k p of Inr s \<Rightarrow> [s] | Inl e \<Rightarrow> []) = []"
        by (cases "render_post seg k p") (simp_all add: kp)
    qed
    then have none: "?blocks = []" by simp
    have "returned_text (query_all seg (MongoCollection docs) lt_date gt_date sources False ix True) =
        join_strings [NL] ?blocks"
      by (simp add: first returned_text_def)
    also have "\<dots> = []" by (simp only: none join_strings.simps)
    finally show ?thesis .
  qed
  from first log second read_decimal_decimal show ?thesis by blast
qed

text \<open>
  An undecodable record, the scenario's record and a record without content, stored at
  midnight of 2024-01-01, in the window of that day: one block, with index 1, and two
  printed lines, for the positions 0 and 2, each with the message of its own error. The
  undecodable record alone: an empty text.
\<close>

theorem record_failures_are_caught_witness:
  "query_all simple_segmenter
       (MongoCollection [undecodable_post 63839664000000000, reuters_post 63839664000000000,
                         missing_content_post 63839664000000000])
       63839750400000000 63839577600000000 [''reuters''] False ''idx'' True =
     (Inr ([undecodable_post 63839664000000000, reuters_post 63839664000000000,
            missing_content_post 63839664000000000],
           CHR ''1'' # TAB # ''2024-01-01'' @ TAB # ''u1'' @ NL
             # ''Sentence one.  Sentence two.  Sentence three.  Sentence four.'' @ [NL]),
      [Print (''Error on entry 0: '' @ QUOTE # ''ascii'' @ QUOTE # '' codec can'' @ QUOTE
                # ''t decode byte 0xc3 in position 0: ordinal not in range(128).''),
       Print (''Error on entry 2: u'' @ QUOTE # ''content'' @ QUOTE # ''.''),
       Print ''Total number of stories: 3'', LogInfo ''Total number of stories: 3''])
   \<and> read_decimal ''2'' = 2
   \<and> returned_text (query_all simple_segmenter (MongoCollection [undecodable_post 63839664000000000])
         63839750400000000 63839577600000000 [''reuters''] False ''idx'' True) = []"
proof -
  let ?docs = "[undecodable_post 63839664000000000, reuters_post 63839664000000000,
                missing_content_post 63839664000000000]"
  have fails: "\<forall>k p. (k, p) \<in> set (enumerate 0 (filter (query_lt 63839750400000000 63839577600000000
        [''reuters'']) [undecodable_post 63839664000000000]))
      \<longrightarrow> isl (render_post simple_segmenter k p)"
    by (simp add: model_defs)
  have "returned_text (query_all simple_segmenter (MongoCollection [undecodable_post 63839664000000000])
         63839750400000000 63839577600000000 [''reuters''] False ''idx'' True) = []"
    using record_failures_are_caught [of simple_segmenter "[undecodable_post 63839664000000000]"
        63839750400000000 63839577600000000 "[''reuters'']" "''idx''"]
      fails by blast
  moreover have "query_all simple_segmenter (MongoCollection ?docs)
       63839750400000000 63839577600000000 [''reuters''] False ''idx'' True =
     (Inr (?docs,
           CHR ''1'' # TAB # ''2024-01-01'' @ TAB # ''u1'' @ NL
             # ''Sentence one.  Sentence two.  Sentence three.  Sentence four.'' @ [NL]),
      [Print (''Error on entry 0: '' @ QUOTE # ''ascii'' @ QUOTE # '' codec can'' @ QUOTE
                # ''t decode byte 0xc3 in position 0: ordinal not in range(128).''),
       Print (''Error on entry 2: u'' @ QUOTE # ''content'' @ QUOTE # ''.''),
       Print ''Total number of stories: 3'', LogInfo ''Total number of stories: 3''])"
    using record_failures_are_caught
      [of simple_segmenter ?docs 63839750400000000 63839577600000000 "[''reuters'']" "''idx''",
       THEN conjunct1]
    by (simp add: model_defs missing_content_post_def)
  moreover have "read_decimal ''2'' = 2"
    using record_failures_are_caught
      [of simple_segmenter ?docs 63839750400000000 63839577600000000 "[''reuters'']" "''idx''",
       THEN conjunct2, THEN conjunct2, THEN conjunct1, THEN spec, of 2]
    by (simp add: digit_char_def)
  ultimately show ?thesis by blast
qed

text \<open>
  C5 as stated fails where it says that the failure is logged: the failed record's
  line is printed to standard output, and the logger receives the total only.
\<close>

theorem failure_is_printed_not_logged_counterexample:
  "printed (snd (query_all simple_segmenter
       (MongoCollection [undecodable_post 63839664000000000, reuters_post 63839664000000000])
       63839750400000000 63839577600000000 [''reuters''] False ''idx'' True)) =
     [''Error on entry 0: '' @ QUOTE # ''ascii'' @ QUOTE # '' codec can'' @ QUOTE
        # ''t decode byte 0xc3 in position 0: ordinal not in range(128).'',
      ''Total number of stories: 2'']
   \<and> logged (snd (query_all simple_segmenter
       (MongoCollection [undecodable_post 63839664000000000, reuters_post 63839664000000000])
       63839750400000000 63839577600000000 [''reuters''] False ''idx'' True)) =
     [''Total number of stories: 2'']"
  by (simp add: model_defs)

text \<open>
  C10. The index printed at the head of a block is the position of its record among
  all the records of the query, the failed ones included: the text joins, over the
  positions \<open>k\<close> of the queried records in order, the block that record \<open>k\<close> renders
  with index \<open>k\<close>; and the characters of a block before its first tab are the decimal
  digits of \<open>k\<close>, which read back as the number \<open>k\<close>. So the blocks after a failed
  record keep their own positions and the failed record's index appears nowhere.
\<close>

theorem artifact_index_is_position:
  "(let posts = filter (query_lt lt_date gt_date sources) docs
    in returned_text (query_all seg (MongoCollection docs) lt_date gt_date sources False ix True) =
         join_strings [NL]
           (concat (map (\<lambda>k. case render_post seg k (posts ! k) of Inr s \<Rightarrow> [s] | Inl e \<Rightarrow> [])
              [0..<length posts])))
   \<and> (\<forall>k p s. render_post seg k p = Inr s \<longrightarrow>
          read_decimal (takeWhile (\<lambda>c. c \<noteq> TAB) s) = k
        \<and> (\<exists>rest. s = takeWhile (\<lambda>c. c \<noteq> TAB) s @ TAB # rest))"
proof -
  let ?posts = "filter (query_lt lt_date gt_date sources) docs"
  have "fst (render_loop seg 0 ?posts ([], [])) =
      concat (map (\<lambda>(k, p). case render_post seg k p of Inr s \<Rightarrow> [s] | Inl e \<Rightarrow> [])
                (map (\<lambda>k. (k, ?posts ! k)) [0..<length ?posts]))"
    using render_loop_eq [of seg 0 ?posts "[]" "[]"] by (simp add: enumerate_nth)
  then have "returned_text (query_all seg (MongoCollection docs) lt_date gt_date sources False ix True) =
      join_strings [NL]
        (concat (map (\<lambda>k. case render_post seg k (?posts ! k) of Inr s \<Rightarrow> [s] | Inl e \<Rightarrow> [])
           [0..<length ?posts]))"
    by (simp add: query_all_mongo returned_text_def comp_def)
  moreover have "read_decimal (takeWhile (\<lambda>c. c \<noteq> TAB) s) = k
        \<and> (\<exists>rest. s = takeWhile (\<lambda>c. c \<noteq> TAB) s @ TAB # rest)"
    if r: "render_post seg k p = Inr s" for k p s
  proof -
    have head: "takeWhile (\<lambda>c. c \<noteq> TAB) s = decimal k" by (rule block_index [OF r])
    from render_post_index [OF r] obtain rest where "s = decimal k @ TAB # rest" by blast
    with head show ?thesis by (auto simp: read_decimal_decimal)
  qed
  ultimately show ?thesis by (simp add: Let_def)
qed

text \<open>
  The second of three records fails: the text holds two blocks, with the indices 0
  and 2.
\<close>

theorem artifact_index_is_position_witness:
  "returned_text (query_all simple_segmenter
       (MongoCollection [reuters_post 63839664000000000, undecodable_post 63839664000000000,
                         reuters_post 63839664000000000])
       63839750400000000 63839577600000000 [''reuters''] False ''idx'' True) =
     CHR ''0'' # TAB # ''2024-01-01'' @ TAB # ''u1'' @ NL
       # ''Sentence one.  Sentence two.  Sentence three.  Sentence four.'' @ [NL, NL]
     @ CHR ''2'' # TAB # ''2024-01-01'' @ TAB # ''u1'' @ NL
       # ''Sentence one.  Sentence two.  Sentence three.  Sentence four.'' @ [NL]
   \<and> read_decimal (takeWhile (\<lambda>c. c \<noteq> TAB)
         (CHR ''2'' # TAB # ''2024-01-01'' @ TAB # ''u1'' @ NL
            # ''Sentence one.  Sentence two.  Sentence three.  Sentence four.'' @ [NL])) = 2"
proof -
  let ?docs = "[reuters_post 63839664000000000, undecodable_post 63839664000000000,
                reuters_post 63839664000000000]"
  note t = artifact_index_is_position
      [of 63839750400000000 63839577600000000 "[''reuters'']" ?docs simple_segmenter "''idx''"]
  have r: "render_post simple_segmenter 2 (reuters_post 63839664000000000) =
     Inr (CHR ''2'' # TAB # ''2024-01-01'' @ TAB # ''u1'' @ NL
            # ''Sentence one.  Sentence two.  Sentence three.  Sentence four.'' @ [NL])"
    by (simp add: model_defs)
  have 1: "returned_text (query_all simple_segmenter (MongoCollection ?docs)
       63839750400000000 63839577600000000 [''reuters''] False ''idx'' True) =
     CHR ''0'' # TAB # ''2024-01-01'' @ TAB # ''u1'' @ NL
       # ''Sentence one.  Sentence two.  Sentence three.  Sentence four.'' @ [NL, NL]
     @ CHR ''2'' # TAB # ''2024-01-01'' @ TAB # ''u1'' @ NL
       # ''Sentence one.  Sentence two.  Sentence three.  Sentence four.'' @ [NL]"
    using t [THEN conjunct1] by (simp add: model_defs upt_rec)
  have 2: "read_decimal (takeWhile (\<lambda>c. c \<noteq> TAB)
         (CHR ''2'' # TAB # ''2024-01-01'' @ TAB # ''u1'' @ NL
            # ''Sentence one.  Sentence two.  Sentence three.  Sentence four.'' @ [NL])) = 2"
    using t [THEN conjunct2] r by blast
  from 1 2 show ?thesis by blast
qed

end
